theory Spec2Isabelle
  imports Complex_Main "HOL-Library.AList" "HOL-Library.Char_ord" "HOL-Library.List_Lexorder"
begin

section \<open>Python values shared by the components\<close>

text \<open>
  A Python \<open>str\<close> is modelled as a \<open>string\<close>: a list of characters whose code points
  lie below 256. A \<open>float\<close> is modelled as the real number it denotes (rounding, NaN
  and infinities are outside the model). A \<open>dict\<close> keeps its insertion order, so it is
  an association list with distinct keys: \<open>map_of\<close> reads it and \<open>AList.update\<close>
  writes it (an existing key keeps its position, a new key goes to the end).
\<close>

datatype pyval =
    PNone
  | PBool bool
  | PInt int
  | PFloat real
  | PStr string
  | PList "pyval list"
  | PDict "(string \<times> pyval) list"

text \<open>Truth value of a Python object, as \<open>if x:\<close> tests it.\<close>

fun truthy :: "pyval \<Rightarrow> bool" where
  "truthy PNone = False"
| "truthy (PBool b) = b"
| "truthy (PInt i) = (i \<noteq> 0)"
| "truthy (PFloat r) = (r \<noteq> 0)"
| "truthy (PStr s) = (s \<noteq> [])"
| "truthy (PList xs) = (xs \<noteq> [])"
| "truthy (PDict kvs) = (kvs \<noteq> [])"

type_synonym pydict = "(string \<times> pyval) list"

text \<open>\<open>str.lower()\<close> on code points below 256: A-Z and the accented capitals
  0xC0-0xDE (without the multiplication sign 0xD7) move up by 32.\<close>

definition lower_char :: "char \<Rightarrow> char" where
  "lower_char c =
     (let n = of_char c :: nat
      in if (65 \<le> n \<and> n \<le> 90) \<or> (192 \<le> n \<and> n \<le> 222 \<and> n \<noteq> 215)
         then char_of (n + 32) else c)"

definition lower :: "string \<Rightarrow> string" where
  "lower s = map lower_char s"

text \<open>\<open>needle in hay\<close> on strings: \<open>needle\<close> occurs as a contiguous piece.\<close>

fun starts_with :: "'a list \<Rightarrow> 'a list \<Rightarrow> bool" where
  "starts_with [] hay = True"
| "starts_with (x # xs) [] = False"
| "starts_with (x # xs) (y # ys) = (x = y \<and> starts_with xs ys)"

fun str_in :: "'a list \<Rightarrow> 'a list \<Rightarrow> bool" where
  "str_in needle [] = (needle = [])"
| "str_in needle (y # ys) = (starts_with needle (y # ys) \<or> str_in needle ys)"

section \<open>Knowledge graph (knowledge\_graph.py)\<close>

record KnowledgeNode =
  node_id :: string
  node_type :: string
  label :: string
  description :: string
  node_metadata :: pydict

record KnowledgeEdge =
  source :: string
  target :: string
  relation_type :: string
  weight :: real
  evidence :: "string list"

text \<open>
  The object state is the node dict and the edge list. The SQLite file behind it is
  part of the state as its two tables; the rows of \<open>nodes\<close> are keyed by the primary
  key \<open>id\<close>. Messages given to the logger are collected in \<open>log\<close>. Edge objects and
  evidence lists are treated as values.
\<close>

record KnowledgeGraph =
  nodes :: "(string \<times> KnowledgeNode) list"
  edges :: "KnowledgeEdge list"
  db_nodes :: "(string \<times> KnowledgeNode) list"
  db_edges :: "KnowledgeEdge list"
  log :: "string list"

text \<open>A graph object constructed over a fresh database file.\<close>

definition empty_graph :: KnowledgeGraph where
  "empty_graph =
     \<lparr>nodes = [], edges = [], db_nodes = [], db_edges = [],
      log = [''Loaded 0 nodes and 0 edges from database'']\<rparr>"

text \<open>\<open>INSERT OR REPLACE INTO nodes\<close>: a row with the same primary key is deleted and
  the new row is appended.\<close>

definition save_node_to_db :: "KnowledgeGraph \<Rightarrow> KnowledgeNode \<Rightarrow> KnowledgeGraph" where
  "save_node_to_db g node =
     g\<lparr>db_nodes := AList.delete (node_id node) (db_nodes g) @ [(node_id node, node)]\<rparr>"

definition add_node :: "KnowledgeGraph \<Rightarrow> KnowledgeNode \<Rightarrow> KnowledgeGraph" where
  "add_node g node =
     save_node_to_db (g\<lparr>nodes := AList.update (node_id node) node (nodes g)\<rparr>) node"

definition same_key :: "KnowledgeEdge \<Rightarrow> KnowledgeEdge \<Rightarrow> bool" where
  "same_key edge e \<longleftrightarrow>
     source e = source edge \<and> target e = target edge \<and> relation_type e = relation_type edge"

definition save_edge_to_db :: "KnowledgeGraph \<Rightarrow> KnowledgeEdge \<Rightarrow> KnowledgeGraph" where
  "save_edge_to_db g edge = g\<lparr>db_edges := db_edges g @ [edge]\<rparr>"

text \<open>\<open>UPDATE edges SET weight=?, evidence=? WHERE source=? AND target=? AND
  relation_type=?\<close>: every row with the key is rewritten.\<close>

definition update_edge_in_db :: "KnowledgeGraph \<Rightarrow> KnowledgeEdge \<Rightarrow> KnowledgeGraph" where
  "update_edge_in_db g edge =
     g\<lparr>db_edges :=
         map (\<lambda>r. if same_key edge r then r\<lparr>weight := weight edge, evidence := evidence edge\<rparr>
                  else r)
             (db_edges g)\<rparr>"

text \<open>The first element satisfying \<open>P\<close> is replaced by its image under \<open>f\<close>: the effect
  of mutating the object that \<open>next(e for e in self.edges if ...)\<close> returned.\<close>

fun update_first :: "('a \<Rightarrow> bool) \<Rightarrow> ('a \<Rightarrow> 'a) \<Rightarrow> 'a list \<Rightarrow> 'a list" where
  "update_first P f [] = []"
| "update_first P f (x # xs) = (if P x then f x # xs else x # update_first P f xs)"

text \<open>\<open>list(set(xs))\<close> keeps one copy of each element, in an order Python does not
  specify; the model keeps the order of \<open>remdups\<close>.\<close>

definition merged :: "KnowledgeEdge \<Rightarrow> KnowledgeEdge \<Rightarrow> KnowledgeEdge" where
  "merged edge existing =
     existing\<lparr>weight := weight edge,
              evidence := remdups (evidence existing @ evidence edge)\<rparr>"

definition add_edge :: "KnowledgeGraph \<Rightarrow> KnowledgeEdge \<Rightarrow> KnowledgeGraph" where
  "add_edge g edge =
     (if map_of (nodes g) (source edge) = None then
        g\<lparr>log := log g @ [''Source node '' @ source edge @ '' not found, skipping edge'']\<rparr>
      else if map_of (nodes g) (target edge) = None then
        g\<lparr>log := log g @ [''Target node '' @ target edge @ '' not found, skipping edge'']\<rparr>
      else
        (case List.find (same_key edge) (edges g) of
           Some existing \<Rightarrow>
             if weight edge > weight existing then
               update_edge_in_db
                 (g\<lparr>edges := update_first (same_key edge) (merged edge) (edges g)\<rparr>)
                 (merged edge existing)
             else g
         | None \<Rightarrow> save_edge_to_db (g\<lparr>edges := edges g @ [edge]\<rparr>) edge))"

text \<open>The key of an edge, and the state in which no two stored edges share it.\<close>

definition edge_key :: "KnowledgeEdge \<Rightarrow> string \<times> string \<times> string" where
  "edge_key e = (source e, target e, relation_type e)"

definition unique_keys :: "KnowledgeGraph \<Rightarrow> bool" where
  "unique_keys g \<longleftrightarrow> distinct (map edge_key (edges g))"

text \<open>A history of calls on a graph object.\<close>

datatype kg_call = AddNode KnowledgeNode | AddEdge KnowledgeEdge

fun kg_step :: "KnowledgeGraph \<Rightarrow> kg_call \<Rightarrow> KnowledgeGraph" where
  "kg_step g (AddNode n) = add_node g n"
| "kg_step g (AddEdge e) = add_edge g e"

definition kg_run :: "kg_call list \<Rightarrow> KnowledgeGraph" where
  "kg_run calls = foldl kg_step empty_graph calls"

definition node_ids :: "KnowledgeGraph \<Rightarrow> string set" where
  "node_ids g = fst ` set (nodes g)"

text \<open>\<open>xs[:n]\<close>: a negative bound counts from the end.\<close>

definition slice_to :: "int \<Rightarrow> 'a list \<Rightarrow> 'a list" where
  "slice_to n xs = (if 0 \<le> n then take (nat n) xs else take (length xs - nat (- n)) xs)"

text \<open>An optional string argument that filters only when it is given and not empty
  (\<open>if node_type and node.type != node_type: continue\<close>).\<close>

definition filtered_out :: "string option \<Rightarrow> string \<Rightarrow> bool" where
  "filtered_out wanted actual \<longleftrightarrow>
     (case wanted of None \<Rightarrow> False | Some w \<Rightarrow> w \<noteq> [] \<and> actual \<noteq> w)"

definition node_matches :: "string \<Rightarrow> KnowledgeNode \<Rightarrow> bool" where
  "node_matches query_lower node \<longleftrightarrow>
     str_in query_lower (lower (label node)) \<or> str_in query_lower (lower (description node))"

definition find_nodes ::
  "KnowledgeGraph \<Rightarrow> string \<Rightarrow> string option \<Rightarrow> int \<Rightarrow> KnowledgeNode list" where
  "find_nodes g query ntype limit =
     (let query_lower = lower query;
          results = filter (\<lambda>node. \<not> filtered_out ntype (node_type node)
                                    \<and> node_matches query_lower node)
                           (map snd (nodes g))
      in slice_to limit results)"

text \<open>The pairs one edge contributes to \<open>get_related_nodes\<close>: the target node when the
  edge leaves \<open>nid\<close>, then the source node when it enters \<open>nid\<close>.\<close>

definition related_of ::
  "KnowledgeGraph \<Rightarrow> string \<Rightarrow> string \<Rightarrow> KnowledgeEdge \<Rightarrow> (KnowledgeNode \<times> KnowledgeEdge) list" where
  "related_of g nid direction edge =
     (if (direction = ''out'' \<or> direction = ''both'') \<and> source edge = nid then
        (case map_of (nodes g) (target edge) of
           Some target_node \<Rightarrow> [(target_node, edge)] | None \<Rightarrow> [])
      else []) @
     (if (direction = ''in'' \<or> direction = ''both'') \<and> target edge = nid then
        (case map_of (nodes g) (source edge) of
           Some source_node \<Rightarrow> [(source_node, edge)] | None \<Rightarrow> [])
      else [])"

definition get_related_nodes ::
  "KnowledgeGraph \<Rightarrow> string \<Rightarrow> string option \<Rightarrow> string \<Rightarrow> (KnowledgeNode \<times> KnowledgeEdge) list" where
  "get_related_nodes g nid rtype direction =
     (if map_of (nodes g) nid = None then []
      else concat (map (\<lambda>edge. if filtered_out rtype (relation_type edge) then []
                               else related_of g nid direction edge)
                       (edges g)))"

text \<open>A path is the list of triples (relation, node id, node type) that the search
  extends; it starts with the triple of the problem node.\<close>

type_synonym path_step = "string \<times> string \<times> string"

definition calculate_path_score :: "path_step list \<Rightarrow> real" where
  "calculate_path_score path =
     (if path = [] then 0
      else
        let types_seen = set (map (\<lambda>(r, n, t). t) path);
            score = 1 + real (card types_seen) * (2 / 10);
            score = (if length path > 5 then score - real (length path - 5) * (1 / 10)
                     else score);
            score = (if snd (snd (last path)) = ''result'' then score + 5 / 10 else score)
        in max 0 score)"

record found_path =
  fp_path :: "path_step list"
  fp_sequence :: "string list"
  fp_score :: real

text \<open>
  The inner function \<open>dfs\<close>. It appends to the shared list \<open>paths\<close>; the model returns
  the entries one call appends, in order. The shared set \<open>visited_edges\<close> is the same
  after a call as before it (each key is added before the recursive call and removed
  after it, and the candidates are chosen before the loop), so it is an argument.
\<close>

function dfs ::
  "KnowledgeGraph \<Rightarrow> int \<Rightarrow> (string \<times> string \<times> string) set \<Rightarrow> string \<Rightarrow> path_step list
     \<Rightarrow> int \<Rightarrow> string list \<Rightarrow> found_path list" where
  "dfs g max_depth visited_edges nid path depth current_sequence =
     (if depth > max_depth then []
      else
        (case map_of (nodes g) nid of
           None \<Rightarrow> []
         | Some node \<Rightarrow>
             if node_type node = ''result'' then
               (if length path \<ge> 2 then
                  [\<lparr>fp_path = path, fp_sequence = current_sequence,
                    fp_score = calculate_path_score path\<rparr>]
                else [])
             else
               (let related = get_related_nodes g nid None ''out'';
                    fresh = filter (\<lambda>(target_node, edge).
                                (nid, node_id target_node, relation_type edge) \<notin> visited_edges)
                              related;
                    prioritized = filter (\<lambda>(target_node, edge).
                                node_type target_node = ''action'' \<or> node_type target_node = ''tool'')
                              fresh;
                    regular = filter (\<lambda>(target_node, edge).
                                \<not> (node_type target_node = ''action'' \<or> node_type target_node = ''tool''))
                              fresh
                in concat (map (\<lambda>(target_node, edge).
                      dfs g max_depth
                          (insert (nid, node_id target_node, relation_type edge) visited_edges)
                          (node_id target_node)
                          (path @ [(relation_type edge, node_id target_node, node_type target_node)])
                          (depth + 1)
                          (current_sequence @ [label target_node]))
                    (prioritized @ regular)))))"
  by pat_completeness auto
termination
  by (relation "measure (\<lambda>(g, max_depth, visited_edges, nid, path, depth, current_sequence).
                  nat (max_depth + 1 - depth))") auto

declare dfs.simps [simp del]

record path_entry =
  step :: nat
  node :: KnowledgeNode
  relation :: string
  entry_type :: string

record solution_path =
  path :: "path_entry list"
  path_length :: nat
  score :: real
  sequence :: "string list"

text \<open>The steps of one found path: position \<open>i\<close> (from 0) gives step \<open>i + 1\<close>; a triple
  whose node is no longer in the dict gives no step.\<close>

fun format_steps :: "KnowledgeGraph \<Rightarrow> nat \<Rightarrow> path_step list \<Rightarrow> path_entry list" where
  "format_steps g i [] = []"
| "format_steps g i ((rel, nid, ntype) # rest) =
     (case map_of (nodes g) nid of
        Some n \<Rightarrow>
          [\<lparr>step = i + 1, node = n, relation = (if i > 0 then rel else ''start''),
            entry_type = ntype\<rparr>]
      | None \<Rightarrow> []) @ format_steps g (i + 1) rest"

definition format_path :: "KnowledgeGraph \<Rightarrow> found_path \<Rightarrow> solution_path list" where
  "format_path g path_data =
     (let steps = format_steps g 0 (fp_path path_data)
      in if steps \<noteq> [] then
           [\<lparr>path = steps, path_length = length steps, score = fp_score path_data,
             sequence = fp_sequence path_data\<rparr>]
         else [])"

text \<open>\<open>paths.sort(key=score, reverse=True)\<close> is stable: paths of equal score keep their
  order. \<open>sort_key\<close> on the negated score does the same.\<close>

definition find_solution_path ::
  "KnowledgeGraph \<Rightarrow> string \<Rightarrow> int \<Rightarrow> solution_path list" where
  "find_solution_path g problem max_depth =
     (let problem_nodes = find_nodes g problem (Some ''problem'') 10;
          problem_nodes =
            (if problem_nodes = [] then
               (let all_problems = find_nodes g [] (Some ''problem'') 10;
                    problem_lower = lower problem
                in problem_nodes @ filter (node_matches problem_lower) all_problems)
             else problem_nodes)
      in if problem_nodes = [] then []
         else
           (let paths = concat (map (\<lambda>problem_node.
                           dfs g max_depth {} (node_id problem_node)
                               [(''start'', node_id problem_node, ''problem'')] 0
                               [label problem_node])
                         problem_nodes);
                paths = sort_key (\<lambda>x. - fp_score x) paths
            in concat (map (format_path g) (slice_to 5 paths))))"

text \<open>Every stored edge starts and ends at a stored node.\<close>

definition endpoints_ok :: "KnowledgeGraph \<Rightarrow> bool" where
  "endpoints_ok g \<longleftrightarrow> (\<forall>e \<in> set (edges g). source e \<in> node_ids g \<and> target e \<in> node_ids g)"

subsection \<open>A small graph: a problem, the action it requires, the result it produces\<close>

definition demo_problem :: KnowledgeNode where
  "demo_problem = \<lparr>node_id = ''p1'', node_type = ''problem'', label = ''Pump leak'',
                    description = ''Seal failure'', node_metadata = []\<rparr>"

definition demo_action :: KnowledgeNode where
  "demo_action = \<lparr>node_id = ''a1'', node_type = ''action'', label = ''Replace seal'',
                   description = [], node_metadata = []\<rparr>"

definition demo_result :: KnowledgeNode where
  "demo_result = \<lparr>node_id = ''r1'', node_type = ''result'', label = ''Pump dry'',
                   description = [], node_metadata = []\<rparr>"

definition demo_requires :: KnowledgeEdge where
  "demo_requires = \<lparr>source = ''p1'', target = ''a1'', relation_type = ''requires'',
                     weight = 5 / 10, evidence = [''doc1'']\<rparr>"

definition demo_produces :: KnowledgeEdge where
  "demo_produces = \<lparr>source = ''a1'', target = ''r1'', relation_type = ''produces'',
                     weight = 8 / 10, evidence = [''doc1'', ''doc2'']\<rparr>"

definition demo_calls :: "kg_call list" where
  "demo_calls = [AddNode demo_problem, AddNode demo_action, AddNode demo_result,
                 AddEdge demo_requires, AddEdge demo_produces]"

definition demo_graph :: KnowledgeGraph where
  "demo_graph = kg_run demo_calls"

section \<open>Conversational memory (enhanced\_memory.py)\<close>

text \<open>\<open>str.strip()\<close> removes leading and trailing whitespace; below code point 256
  the whitespace characters are 9-13, 28-32, 133 and 160.\<close>

definition is_space :: "char \<Rightarrow> bool" where
  "is_space c =
     (let n = of_char c :: nat
      in (9 \<le> n \<and> n \<le> 13) \<or> (28 \<le> n \<and> n \<le> 32) \<or> n = 133 \<or> n = 160)"

definition strip :: "string \<Rightarrow> string" where
  "strip s = rev (dropWhile is_space (rev (dropWhile is_space s)))"

text \<open>\<open>d.get(k)\<close>: the value, or \<open>None\<close> for a missing key.\<close>

definition dict_get :: "pydict \<Rightarrow> string \<Rightarrow> pyval" where
  "dict_get d k = (case map_of d k of None \<Rightarrow> PNone | Some v \<Rightarrow> v)"

definition important_keywords :: "string list" where
  "important_keywords =
     [''importante'', ''recordar'', ''siempre'', ''nunca'', ''preferencia'',
      ''me gusta'', ''no me gusta'', ''quiero'', ''necesito'']"

text \<open>The keyword loop: the first keyword found in the lowered content adds 0.15 and
  ends the loop.\<close>

fun keyword_loop :: "string list \<Rightarrow> string \<Rightarrow> real \<Rightarrow> real" where
  "keyword_loop [] content_lower importance = importance"
| "keyword_loop (keyword # rest) content_lower importance =
     (if str_in keyword content_lower then importance + 15 / 100
      else keyword_loop rest content_lower importance)"

definition calculate_importance :: "string \<Rightarrow> string \<Rightarrow> pydict option \<Rightarrow> real" where
  "calculate_importance role content metadata =
     (let importance = 5 / 10;
          importance = (if role = ''user'' then importance + 1 / 10 else importance);
          importance = (if length content > 200 then importance + 1 / 10 else importance);
          importance = (if length content > 500 then importance + 1 / 10 else importance);
          content_lower = lower content;
          importance = keyword_loop important_keywords content_lower importance;
          importance =
            (case metadata of
               None \<Rightarrow> importance
             | Some md \<Rightarrow>
                 if md \<noteq> [] then
                   (let importance = (if truthy (dict_get md ''tool_used'')
                                      then importance + 1 / 10 else importance);
                        importance = (if truthy (dict_get md ''reasoning'')
                                      then importance + 1 / 10 else importance)
                    in importance)
                 else importance)
      in min importance 1)"

text \<open>A row of the table \<open>long_term_memory\<close>. The embedding column holds the pickled
  vector, or NULL; the metadata column holds the JSON text of the dict, or NULL.\<close>

record memory_row =
  row_id :: nat
  user_id :: string
  conversation_id :: "int option"
  role :: string
  content :: string
  embedding :: "real list option"
  metadata_json :: "pydict option"
  timestamp :: string
  importance_score :: real
  is_summarized :: bool

text \<open>An entry of the short-term list.\<close>

record message =
  msg_role :: string
  msg_content :: string
  msg_metadata :: pydict
  msg_timestamp :: string
  msg_importance :: real

text \<open>
  The object state: its configuration, the short-term list and the database table
  with its auto-increment counter. \<open>embed_calls\<close> records every text handed to
  \<open>embedder.encode_query\<close>, \<open>mem_log\<close> every message handed to the logger (without
  the text of the exception, where the message carries one).
\<close>

record EnhancedMemory =
  mem_user_id :: string
  max_short_term :: int
  short_term :: "message list"
  long_term_memory :: "memory_row list"
  next_row_id :: nat
  embed_calls :: "string list"
  mem_log :: "string list"

text \<open>
  What the object is given from outside: the embedder (\<open>None\<close> when
  \<open>encode_query\<close> or the pickling raises), the optional LLM client with its
  \<open>summarize\<close> method (\<open>None\<close> when the call raises), and the clock readings one call
  of \<open>add\<close> takes: SQLite's \<open>CURRENT_TIMESTAMP\<close> and the ISO texts of
  \<open>datetime.now()\<close> and of \<open>datetime.now() - timedelta(days=7)\<close>.
\<close>

record collaborators =
  encode_query :: "string \<Rightarrow> real list option"
  llm_client :: "(string \<Rightarrow> string option) option"

record clock =
  current_timestamp :: string
  now_iso :: string
  seven_days_ago_iso :: string

text \<open>A row counted by the compaction query: of this user, older than the cutoff (a
  comparison of texts) and not yet summarised.\<close>

definition old_unsummarized :: "string \<Rightarrow> string \<Rightarrow> memory_row \<Rightarrow> bool" where
  "old_unsummarized uid cutoff r \<longleftrightarrow>
     user_id r = uid \<and> timestamp r < cutoff \<and> \<not> is_summarized r"

text \<open>SQLite's \<open>DATE()\<close> of a timestamp text \<open>YYYY-MM-DD HH:MM:SS\<close>, the only form this
  code writes: its first ten characters.\<close>

definition sql_date :: "string \<Rightarrow> string" where
  "sql_date ts = take 10 ts"

text \<open>\<open>GROUP_CONCAT(content, sep)\<close>.\<close>

fun group_concat :: "string \<Rightarrow> string list \<Rightarrow> string" where
  "group_concat sep [] = []"
| "group_concat sep [x] = x"
| "group_concat sep (x # y # ys) = x @ sep @ group_concat sep (y # ys)"

text \<open>The row a day's summary is stored in.\<close>

definition summary_row ::
  "EnhancedMemory \<Rightarrow> string \<Rightarrow> string \<Rightarrow> real list \<Rightarrow> memory_row" where
  "summary_row mem day summary summary_embedding =
     \<lparr>row_id = next_row_id mem, user_id = mem_user_id mem, conversation_id = None,
      role = ''system'', content = ''Resumen del '' @ day @ '': '' @ summary,
      embedding = Some summary_embedding, metadata_json = None,
      timestamp = day @ '' 23:59:59'', importance_score = 7 / 10, is_summarized = True\<rparr>"

text \<open>\<open>UPDATE long_term_memory SET is_summarized = 1 WHERE user_id = ? AND
  DATE(timestamp) = ? AND is_summarized = 0\<close>.\<close>

definition mark_summarized :: "string \<Rightarrow> string \<Rightarrow> memory_row \<Rightarrow> memory_row" where
  "mark_summarized uid day r =
     (if user_id r = uid \<and> sql_date (timestamp r) = day \<and> \<not> is_summarized r
      then r\<lparr>is_summarized := True\<rparr> else r)"

text \<open>The body of the loop over the days in \<open>_compress_old_conversations\<close>: a day
  whose summary or embedding raises is logged and skipped.\<close>

definition compress_day ::
  "collaborators \<Rightarrow> (string \<Rightarrow> string option) \<Rightarrow> EnhancedMemory \<Rightarrow> string \<times> string
     \<Rightarrow> EnhancedMemory" where
  "compress_day env summarize mem row =
     (let day = fst row; combined_content = snd row
      in if combined_content = [] then mem
         else
           (case summarize combined_content of
              None \<Rightarrow> mem\<lparr>mem_log := mem_log mem @ [''Error resumiendo d'' @ [CHR 0xED] @ ''a '' @ day]\<rparr>
            | Some summary \<Rightarrow>
                (let mem = mem\<lparr>embed_calls := embed_calls mem @ [summary]\<rparr>
                 in case encode_query env summary of
                      None \<Rightarrow> mem\<lparr>mem_log := mem_log mem @ [''Error resumiendo d'' @ [CHR 0xED] @ ''a '' @ day]\<rparr>
                    | Some summary_embedding \<Rightarrow>
                        mem\<lparr>long_term_memory :=
                              map (mark_summarized (mem_user_id mem) day)
                                  (long_term_memory mem @
                                   [summary_row mem day summary summary_embedding]),
                            next_row_id := next_row_id mem + 1,
                            mem_log := mem_log mem @ [''Resumido d'' @ [CHR 0xED] @ ''a '' @ day]\<rparr>)))"

text \<open>The days with old rows, in ascending order, each with the contents of its old
  rows joined; the query runs once, before the loop.\<close>

definition old_days :: "EnhancedMemory \<Rightarrow> string \<Rightarrow> (string \<times> string) list" where
  "old_days mem cutoff_date =
     (let old = filter (old_unsummarized (mem_user_id mem) cutoff_date) (long_term_memory mem);
          days = sort (remdups (map (\<lambda>r. sql_date (timestamp r)) old))
      in map (\<lambda>day. (day, group_concat [CHR 0x0A, CHR ''-'', CHR ''-'', CHR ''-'', CHR 0x0A]
                              (map content (filter (\<lambda>r. sql_date (timestamp r) = day) old))))
             days)"

definition compress_old_conversations ::
  "collaborators \<Rightarrow> EnhancedMemory \<Rightarrow> string \<Rightarrow> EnhancedMemory" where
  "compress_old_conversations env mem cutoff_date =
     (case llm_client env of
        None \<Rightarrow>
          mem\<lparr>mem_log := mem_log mem @ [''No hay LLM client para resumir, saltando compresi'' @ [CHR 0xF3] @ ''n'']\<rparr>
      | Some summarize \<Rightarrow> foldl (compress_day env summarize) mem (old_days mem cutoff_date))"

definition compress_old_memory_if_needed ::
  "collaborators \<Rightarrow> clock \<Rightarrow> EnhancedMemory \<Rightarrow> EnhancedMemory" where
  "compress_old_memory_if_needed env clk mem =
     (let seven_days_ago = seven_days_ago_iso clk;
          old_count = length (filter (old_unsummarized (mem_user_id mem) seven_days_ago)
                                     (long_term_memory mem))
      in if old_count > 100 then
           compress_old_conversations env
             (mem\<lparr>mem_log := mem_log mem @ [''Comprimiendo mensajes antiguos...'']\<rparr>)
             seven_days_ago
         else mem)"

text \<open>\<open>EnhancedMemory.add\<close>. The importance argument has the default 0.5.\<close>

definition EnhancedMemory_add ::
  "collaborators \<Rightarrow> clock \<Rightarrow> EnhancedMemory \<Rightarrow> string \<Rightarrow> string \<Rightarrow> pydict option
     \<Rightarrow> int option \<Rightarrow> real \<Rightarrow> EnhancedMemory" where
  "EnhancedMemory_add env clk mem role_arg content_arg metadata conv_id importance =
     (if content_arg = [] \<or> strip content_arg = [] then mem
      else
        (let importance = (if importance = 5 / 10
                           then calculate_importance role_arg content_arg metadata
                           else importance);
             embedding_blob = encode_query env content_arg;
             mem = mem\<lparr>embed_calls := embed_calls mem @ [content_arg],
                       mem_log := (case embedding_blob of
                                     None \<Rightarrow> mem_log mem @ [''Error generando embedding'']
                                   | Some b \<Rightarrow> mem_log mem)\<rparr>;
             metadata_text = (case metadata of
                                None \<Rightarrow> None
                              | Some md \<Rightarrow> if md \<noteq> [] then Some md else None);
             mem = mem\<lparr>long_term_memory := long_term_memory mem @
                         [\<lparr>row_id = next_row_id mem, user_id = mem_user_id mem,
                           conversation_id = conv_id, role = role_arg, content = content_arg,
                           embedding = embedding_blob, metadata_json = metadata_text,
                           timestamp = current_timestamp clk,
                           importance_score = importance, is_summarized = False\<rparr>],
                       next_row_id := next_row_id mem + 1\<rparr>;
             mem = mem\<lparr>short_term := short_term mem @
                         [\<lparr>msg_role = role_arg, msg_content = content_arg,
                           msg_metadata = (case metadata of None \<Rightarrow> [] | Some md \<Rightarrow> md),
                           msg_timestamp = now_iso clk, msg_importance = importance\<rparr>]\<rparr>;
             mem = (if int (length (short_term mem)) > max_short_term mem
                    then mem\<lparr>short_term := tl (short_term mem)\<rparr> else mem)
         in compress_old_memory_if_needed env clk mem))"

text \<open>A row with its summarised flag cleared: what compaction never changes.\<close>

definition unflag :: "memory_row \<Rightarrow> memory_row" where
  "unflag r = r\<lparr>is_summarized := False\<rparr>"

definition keeps_rows :: "EnhancedMemory \<Rightarrow> EnhancedMemory \<Rightarrow> bool" where
  "keeps_rows m m' \<longleftrightarrow>
     short_term m' = short_term m \<and>
     map unflag (take (length (long_term_memory m)) (long_term_memory m')) =
       map unflag (long_term_memory m) \<and>
     length (long_term_memory m) \<le> length (long_term_memory m')"

text \<open>The terms of the sum the importance heuristic caps at 1.\<close>

definition has_keyword :: "string \<Rightarrow> bool" where
  "has_keyword content_arg \<longleftrightarrow>
     list_ex (\<lambda>keyword. str_in keyword (lower content_arg)) important_keywords"

definition flag_set :: "pydict option \<Rightarrow> string \<Rightarrow> bool" where
  "flag_set metadata k \<longleftrightarrow> (case metadata of None \<Rightarrow> False | Some md \<Rightarrow> truthy (dict_get md k))"

definition bonus :: "bool \<Rightarrow> real \<Rightarrow> real" where
  "bonus b x = (if b then x else 0)"

text \<open>A memory of user \<open>u1\<close> holding one earlier message, and its collaborators.\<close>

definition demo_env :: collaborators where
  "demo_env = \<lparr>encode_query = (\<lambda>s. Some [real (length s), 1]), llm_client = None\<rparr>"

definition demo_clock :: clock where
  "demo_clock = \<lparr>current_timestamp = ''2025-03-10 09:30:00'',
                  now_iso = ''2025-03-10T10:30:00.000000'',
                  seven_days_ago_iso = ''2025-03-03T10:30:00.000000''\<rparr>"

definition demo_memory :: EnhancedMemory where
  "demo_memory =
     \<lparr>mem_user_id = ''u1'', max_short_term = 20,
      short_term = [\<lparr>msg_role = ''assistant'', msg_content = ''Hola'', msg_metadata = [],
                     msg_timestamp = ''2025-03-09 08:00:00'', msg_importance = 5 / 10\<rparr>],
      long_term_memory = [\<lparr>row_id = 1, user_id = ''u1'', conversation_id = None,
                           role = ''assistant'', content = ''Hola'', embedding = Some [4, 1],
                           metadata_json = None, timestamp = ''2025-03-09 08:00:00'',
                           importance_score = 5 / 10, is_summarized = False\<rparr>],
      next_row_id = 2, embed_calls = [], mem_log = []\<rparr>"

section \<open>Exceptions\<close>

text \<open>The exceptions the modelled code can raise. A function that can raise returns
  the exception (or \<open>None\<close>) together with the state of the object after the call, so
  that what a failed call leaves behind is part of the model.\<close>

datatype error =
    ValueError string
  | RuntimeError string
  | AssertionError
  | AttributeError
  | IndexError
  | NotFittedError

section \<open>Vector stores (vector\_store.py)\<close>

text \<open>A two-dimensional \<open>numpy\<close> array: its shape and its rows.\<close>

record ndarray =
  shape0 :: nat
  shape1 :: nat
  rows :: "real list list"

text \<open>\<open>np.vstack([a, b])\<close> raises \<open>ValueError\<close> when the widths differ.\<close>

definition vstack :: "ndarray \<Rightarrow> ndarray \<Rightarrow> error + ndarray" where
  "vstack a b =
     (if shape1 a \<noteq> shape1 b then
        Inl (ValueError ''all the input array dimensions except for the concatenation axis must match exactly'')
      else Inr \<lparr>shape0 = shape0 a + shape0 b, shape1 = shape1 a, rows = rows a @ rows b\<rparr>)"

type_synonym meta = "(string \<times> string) list"

record InMemoryVectorStore =
  im_embeddings :: "ndarray option"
  im_metas :: "meta list"

definition size_mismatch :: error where
  "size_mismatch = ValueError ''Embeddings and metas size mismatch''"

definition InMemoryVectorStore_add ::
  "InMemoryVectorStore \<Rightarrow> ndarray \<Rightarrow> meta list \<Rightarrow> error option \<times> InMemoryVectorStore" where
  "InMemoryVectorStore_add store embeddings metas =
     (if shape0 embeddings \<noteq> length metas then (Some size_mismatch, store)
      else
        (case im_embeddings store of
           None \<Rightarrow>
             (None, store\<lparr>im_embeddings := Some embeddings, im_metas := im_metas store @ metas\<rparr>)
         | Some old \<Rightarrow>
             (case vstack old embeddings of
                Inl e \<Rightarrow> (Some e, store)
              | Inr stacked \<Rightarrow>
                  (None, store\<lparr>im_embeddings := Some stacked,
                               im_metas := im_metas store @ metas\<rparr>))))"

text \<open>The FAISS index \<open>IndexFlatIP(d)\<close>: its dimension \<open>d\<close>, the number of stored vectors
  and the vectors. Its \<open>add\<close> asserts that the width of the array is \<open>d\<close>.\<close>

record IndexFlatIP =
  faiss_d :: nat
  ntotal :: nat
  xb :: "real list list"

record FaissVectorStore =
  fa_index :: "IndexFlatIP option"
  fa_metas :: "meta list"

text \<open>What the store is given from outside: whether \<open>import faiss\<close> succeeds, and the
  rounding of \<open>astype('float32')\<close>.\<close>

record faiss_env =
  faiss_installed :: bool
  float32 :: "real \<Rightarrow> real"

definition not_installed :: error where
  "not_installed = RuntimeError (''FAISS no est'' @ [CHR 0xE1] @ '' instalado. Instala faiss-cpu.'')"

definition ensure_index ::
  "faiss_env \<Rightarrow> FaissVectorStore \<Rightarrow> nat \<Rightarrow> error option \<times> FaissVectorStore" where
  "ensure_index env store width =
     (case fa_index store of
        None \<Rightarrow>
          if \<not> faiss_installed env then (Some not_installed, store)
          else (None, store\<lparr>fa_index := Some \<lparr>faiss_d = width, ntotal = 0, xb = []\<rparr>\<rparr>)
      | Some idx \<Rightarrow> (None, store))"

definition index_add :: "faiss_env \<Rightarrow> IndexFlatIP \<Rightarrow> ndarray \<Rightarrow> error + IndexFlatIP" where
  "index_add env idx x =
     (if shape1 x \<noteq> faiss_d idx then Inl AssertionError
      else Inr (idx\<lparr>ntotal := ntotal idx + shape0 x,
                    xb := xb idx @ map (map (float32 env)) (rows x)\<rparr>))"

definition FaissVectorStore_add ::
  "faiss_env \<Rightarrow> FaissVectorStore \<Rightarrow> ndarray \<Rightarrow> meta list
     \<Rightarrow> error option \<times> FaissVectorStore" where
  "FaissVectorStore_add env store embeddings metas =
     (if shape0 embeddings \<noteq> length metas then (Some size_mismatch, store)
      else
        (case ensure_index env store (shape1 embeddings) of
           (Some e, store) \<Rightarrow> (Some e, store)
         | (None, store) \<Rightarrow>
             if \<not> faiss_installed env then (Some not_installed, store)
             else
               (case fa_index store of
                  None \<Rightarrow> (Some AttributeError, store)
                | Some idx \<Rightarrow>
                    (case index_add env idx embeddings of
                       Inl e \<Rightarrow> (Some e, store)
                     | Inr idx' \<Rightarrow>
                         (None, store\<lparr>fa_index := Some idx',
                                      fa_metas := fa_metas store @ metas\<rparr>)))))"

text \<open>Whether an array of the given width fits what a store already holds.\<close>

definition width_fits_memory :: "InMemoryVectorStore \<Rightarrow> ndarray \<Rightarrow> bool" where
  "width_fits_memory store embeddings \<longleftrightarrow>
     (case im_embeddings store of None \<Rightarrow> True | Some old \<Rightarrow> shape1 old = shape1 embeddings)"

definition width_fits_index :: "FaissVectorStore \<Rightarrow> ndarray \<Rightarrow> bool" where
  "width_fits_index store embeddings \<longleftrightarrow>
     (case fa_index store of None \<Rightarrow> True | Some idx \<Rightarrow> faiss_d idx = shape1 embeddings)"

text \<open>A store holding one vector of width 1, and an array of one vector of width 2.\<close>

definition demo_store :: InMemoryVectorStore where
  "demo_store = \<lparr>im_embeddings = Some \<lparr>shape0 = 1, shape1 = 1, rows = [[1]]\<rparr>,
                  im_metas = [[(''id'', ''doc1::chunk_0'')]]\<rparr>"

definition demo_wide :: ndarray where
  "demo_wide = \<lparr>shape0 = 1, shape1 = 2, rows = [[1, 0]]\<rparr>"

definition demo_faiss_store :: FaissVectorStore where
  "demo_faiss_store = \<lparr>fa_index = Some \<lparr>faiss_d = 1, ntotal = 1, xb = [[1]]\<rparr>,
                        fa_metas = [[(''id'', ''doc1::chunk_0'')]]\<rparr>"

definition demo_faiss_env :: faiss_env where
  "demo_faiss_env = \<lparr>faiss_installed = True, float32 = (\<lambda>x. x)\<rparr>"

section \<open>Embedding backend (embeddings.py)\<close>

text \<open>
  The two libraries are outside the repository. Of scikit-learn's \<open>TfidfVectorizer\<close>
  the model keeps what the calls depend on: the corpus the vocabulary was last built
  from, \<open>None\<close> while the vectorizer is not fitted. \<open>fit\<close> on a corpus without any
  term raises \<open>ValueError\<close> and leaves the vectorizer unfitted (it has replaced its
  inner transformer by a new one before it fails). \<open>transform\<close> first checks that the
  vectorizer is fitted and raises \<open>NotFittedError\<close> otherwise; on an empty list of
  texts it then raises \<open>ValueError\<close> (an array with no sample is refused). The arrays
  the libraries return are kept as terms, without their numbers.
\<close>

record TfidfVectorizer =
  vocabulary_from :: "string list option"

datatype array =
    ModelEncode string "string list"
  | TfidfTransform "string list" "string list"
  | L2Normalized array
  | FirstRow array

text \<open>What the process finds installed: whether \<open>sentence_transformers\<close> imports and
  loads the named model, whether scikit-learn imports, and which corpora contain at
  least one term for the vectorizer.\<close>

record py_env =
  sentence_transformers_loads :: "string \<Rightarrow> bool"
  sklearn_installed :: bool
  has_terms :: "string list \<Rightarrow> bool"

record EmbeddingBackend =
  backend :: string
  model :: "string option"
  vectorizer :: "TfidfVectorizer option"
  model_name :: string

definition vectorizer_fit ::
  "py_env \<Rightarrow> TfidfVectorizer \<Rightarrow> string list \<Rightarrow> error option \<times> TfidfVectorizer" where
  "vectorizer_fit env v texts =
     (if has_terms env texts then (None, v\<lparr>vocabulary_from := Some texts\<rparr>)
      else (Some (ValueError ''empty vocabulary; perhaps the documents only contain stop words''),
            v\<lparr>vocabulary_from := None\<rparr>))"

definition vectorizer_transform :: "TfidfVectorizer \<Rightarrow> string list \<Rightarrow> error + array" where
  "vectorizer_transform v texts =
     (case vocabulary_from v of
        None \<Rightarrow> Inl NotFittedError
      | Some corpus \<Rightarrow>
          if texts = [] then Inl (ValueError ''Found array with 0 sample(s)'')
          else Inr (TfidfTransform corpus texts))"

definition no_backend :: error where
  "no_backend = RuntimeError ''No embedding backend available. Please install 'sentence-transformers' or 'scikit-learn'.''"

text \<open>\<open>EmbeddingBackend.__init__\<close>: SentenceTransformers first; otherwise TF-IDF, fitted
  at once on a dummy text; any failure of that second attempt raises \<open>RuntimeError\<close>.\<close>

definition EmbeddingBackend_init :: "py_env \<Rightarrow> string \<Rightarrow> error + EmbeddingBackend" where
  "EmbeddingBackend_init env name =
     (if sentence_transformers_loads env name then
        Inr \<lparr>backend = ''sentence_transformers'', model = Some name, vectorizer = None,
             model_name = name\<rparr>
      else if \<not> sklearn_installed env then Inl no_backend
      else
        (case vectorizer_fit env \<lparr>vocabulary_from = None\<rparr> [''initialization dummy text''] of
           (Some e, v) \<Rightarrow> Inl no_backend
         | (None, v) \<Rightarrow>
             Inr \<lparr>backend = ''tfidf'', model = None, vectorizer = Some v, model_name = name\<rparr>))"

definition fit_corpus ::
  "py_env \<Rightarrow> EmbeddingBackend \<Rightarrow> string list \<Rightarrow> error option \<times> EmbeddingBackend" where
  "fit_corpus env b texts =
     (case vectorizer b of
        Some v \<Rightarrow>
          if backend b = ''tfidf'' then
            (case vectorizer_fit env v texts of
               (outcome, v') \<Rightarrow> (outcome, b\<lparr>vectorizer := Some v'\<rparr>))
          else (None, b)
      | None \<Rightarrow> (None, b))"

definition encode_texts :: "EmbeddingBackend \<Rightarrow> string list \<Rightarrow> error + array" where
  "encode_texts b texts =
     (if backend b = ''sentence_transformers'' \<and> model b \<noteq> None then
        (case model b of Some m \<Rightarrow> Inr (ModelEncode m texts) | None \<Rightarrow> Inl AttributeError)
      else if backend b = ''tfidf'' \<and> vectorizer b \<noteq> None then
        (case vectorizer b of
           Some v \<Rightarrow>
             (case vectorizer_transform v texts of
                Inl e \<Rightarrow> Inl e
              | Inr X \<Rightarrow> Inr (L2Normalized X))
         | None \<Rightarrow> Inl AttributeError)
      else Inl (RuntimeError ''Embedding backend is not properly initialized''))"

definition EmbeddingBackend_encode_query :: "EmbeddingBackend \<Rightarrow> string \<Rightarrow> error + array" where
  "EmbeddingBackend_encode_query b query =
     (case encode_texts b [query] of Inl e \<Rightarrow> Inl e | Inr X \<Rightarrow> Inr (FirstRow X))"

text \<open>A process without SentenceTransformers and with scikit-learn.\<close>

definition tfidf_env :: py_env where
  "tfidf_env = \<lparr>sentence_transformers_loads = (\<lambda>name. False), sklearn_installed = True,
                 has_terms = (\<lambda>texts. texts \<noteq> [] \<and> concat texts \<noteq> [])\<rparr>"

section \<open>Retrieval cache of the orchestrator (brain.py)\<close>

text \<open>\<open>str(n)\<close> of an integer: its decimal digits, with a minus sign when negative.\<close>

fun str_nat :: "nat \<Rightarrow> string" where
  "str_nat n = (if n < 10 then [char_of (48 + n)]
                else str_nat (n div 10) @ [char_of (48 + n mod 10)])"

declare str_nat.simps [simp del]

definition str_int :: "int \<Rightarrow> string" where
  "str_int i = (if i < 0 then CHR ''-'' # str_nat (nat (- i)) else str_nat (nat i))"

text \<open>
  The part of a \<open>Brain\<close> object that \<open>retrieve\<close> reads and writes: the cache dict with
  its size constant, and the two parallel lists of the corpus.
\<close>

record Brain =
  retrieve_cache :: "(string \<times> meta list) list"
  cache_max_size :: int
  corpus_texts :: "string list"
  corpus_metas :: "meta list"

text \<open>What \<open>retrieve\<close> calls outside the object: the embedder, the vector store's
  search, and the formatting \<open>f"{score:.4f}"\<close>.\<close>

record retrieval_env =
  embed_query :: "string \<Rightarrow> error + real list"
  store_search :: "real list \<Rightarrow> int \<Rightarrow> (meta \<times> real) list"
  format_score :: "real \<Rightarrow> string"

text \<open>The object after \<open>__init__\<close>, before any ingestion.\<close>

definition new_brain :: Brain where
  "new_brain = \<lparr>retrieve_cache = [], cache_max_size = 100, corpus_texts = [],
                 corpus_metas = []\<rparr>"

fun first_index :: "('a \<Rightarrow> bool) \<Rightarrow> 'a list \<Rightarrow> nat option" where
  "first_index P [] = None"
| "first_index P (x # xs) =
     (if P x then Some 0 else map_option Suc (first_index P xs))"

text \<open>The text of the first corpus chunk with the hit's id; \<open>StopIteration\<close> gives the
  empty text, an index beyond \<open>_corpus_texts\<close> raises \<open>IndexError\<close>.\<close>

definition chunk_text :: "Brain \<Rightarrow> meta \<Rightarrow> error + string" where
  "chunk_text brain m =
     (case first_index (\<lambda>cm. map_of cm ''id'' = map_of m ''id'') (corpus_metas brain) of
        None \<Rightarrow> Inr []
      | Some idx \<Rightarrow>
          if idx < length (corpus_texts brain) then Inr (corpus_texts brain ! idx)
          else Inl IndexError)"

fun enrich :: "retrieval_env \<Rightarrow> Brain \<Rightarrow> (meta \<times> real) list \<Rightarrow> error + meta list" where
  "enrich env brain [] = Inr []"
| "enrich env brain ((m, s) # results) =
     (case chunk_text brain m of
        Inl e \<Rightarrow> Inl e
      | Inr text \<Rightarrow>
          (case enrich env brain results of
             Inl e \<Rightarrow> Inl e
           | Inr enriched \<Rightarrow>
               Inr (AList.update ''text'' text
                      (AList.update ''score'' (format_score env s) m) # enriched)))"

definition cache_key_of :: "string \<Rightarrow> int \<Rightarrow> string" where
  "cache_key_of query top_k = query @ ''::'' @ str_int top_k"

text \<open>\<open>self._retrieve_cache.pop(next(iter(self._retrieve_cache)))\<close>: the entry
  inserted first leaves.\<close>

definition pop_first :: "('k \<times> 'v) list \<Rightarrow> ('k \<times> 'v) list" where
  "pop_first cache = (case cache of [] \<Rightarrow> [] | (k, v) # rest \<Rightarrow> AList.delete k cache)"

definition Brain_retrieve ::
  "retrieval_env \<Rightarrow> Brain \<Rightarrow> string \<Rightarrow> int \<Rightarrow> (error + meta list) \<times> Brain" where
  "Brain_retrieve env brain query top_k =
     (let cache_key = cache_key_of query top_k
      in case map_of (retrieve_cache brain) cache_key of
           Some cached \<Rightarrow> (Inr cached, brain)
         | None \<Rightarrow>
             (case embed_query env query of
                Inl e \<Rightarrow> (Inl e, brain)
              | Inr q \<Rightarrow>
                  (case enrich env brain (store_search env q top_k) of
                     Inl e \<Rightarrow> (Inl e, brain)
                   | Inr enriched \<Rightarrow>
                       (let cache = retrieve_cache brain;
                            cache = (if int (length cache) > cache_max_size brain
                                     then pop_first cache else cache);
                            cache = AList.update cache_key enriched cache
                        in (Inr enriched, brain\<lparr>retrieve_cache := cache\<rparr>)))))"

text \<open>A session of \<open>retrieve\<close> calls with one \<open>top_k\<close>; the answers are dropped.\<close>

definition retrieve_each :: "retrieval_env \<Rightarrow> Brain \<Rightarrow> string list \<Rightarrow> int \<Rightarrow> Brain" where
  "retrieve_each env brain queries top_k =
     foldl (\<lambda>b query. snd (Brain_retrieve env b query top_k)) brain queries"

text \<open>An embedder that always answers and a store whose search finds nothing (as the
  fallback \<open>_StubStore\<close> of the orchestrator); the queries \<open>q\<close>, \<open>qq\<close>, \<open>qqq\<close>, ...\<close>

definition stub_env :: retrieval_env where
  "stub_env = \<lparr>embed_query = (\<lambda>query. Inr [1]), store_search = (\<lambda>q top_k. []),
                format_score = (\<lambda>s. ''0.0000'')\<rparr>"

definition distinct_queries :: "nat \<Rightarrow> string list" where
  "distinct_queries n = map (\<lambda>i. replicate (Suc i) CHR ''q'') [0..<n]"
section \<open>Properties of the knowledge graph\<close>

subsection \<open>Auxiliary facts\<close>

lemma in_node_ids: "k \<in> node_ids g \<longleftrightarrow> map_of (nodes g) k \<noteq> None"
  by (simp add: node_ids_def map_of_eq_None_iff)

lemma length_update_first: "length (update_first P f xs) = length xs"
  by (induction xs) auto

lemma find_update_first:
  "List.find P xs = Some x \<Longrightarrow> P (f x) \<Longrightarrow> List.find P (update_first P f xs) = Some (f x)"
  by (induction xs) (auto split: if_splits)

lemma map_update_first_key:
  "(\<And>x. P x \<Longrightarrow> k (f x) = k x) \<Longrightarrow> map k (update_first P f xs) = map k xs"
  by (induction xs) auto

lemma same_key_merged: "same_key edge (merged edge x) = same_key edge x"
  by (simp add: same_key_def merged_def)

lemma edge_key_merged: "edge_key (merged edge x) = edge_key x"
  by (simp add: edge_key_def merged_def)

lemma find_None_key: "List.find (same_key edge) xs = None \<Longrightarrow> edge_key edge \<notin> set (map edge_key xs)"
  by (auto simp: find_None_iff same_key_def edge_key_def)

lemma find_Some_P: "List.find P xs = Some x \<Longrightarrow> P x \<and> x \<in> set xs"
  by (induction xs) (auto split: if_splits)

lemma node_ids_add_node: "node_ids (add_node g n) = insert (node_id n) (node_ids g)"
  by (simp add: node_ids_def add_node_def save_node_to_db_def dom_update)

lemma edges_add_node: "edges (add_node g n) = edges g"
  by (simp add: add_node_def save_node_to_db_def)

lemma node_ids_add_edge: "node_ids (add_edge g e) = node_ids g"
  by (simp add: node_ids_def add_edge_def save_edge_to_db_def update_edge_in_db_def split: option.splits)


lemma set_update_first: "set (update_first P f xs) \<subseteq> set xs \<union> f ` {x \<in> set xs. P x}"
  by (induction xs) auto

lemma endpoints_add_edge: "endpoints_ok g \<Longrightarrow> endpoints_ok (add_edge g e)"
  unfolding endpoints_ok_def node_ids_add_edge
  using set_update_first[of "same_key e" "merged e" "edges g"]
  by (auto simp: add_edge_def save_edge_to_db_def update_edge_in_db_def in_node_ids merged_def
      split: option.splits)

lemma endpoints_add_node: "endpoints_ok g \<Longrightarrow> endpoints_ok (add_node g n)"
  unfolding endpoints_ok_def node_ids_add_node edges_add_node by auto

lemma endpoints_foldl: "endpoints_ok g \<Longrightarrow> endpoints_ok (foldl kg_step g calls)"
proof (induction calls arbitrary: g)
  case Nil then show ?case by simp
next
  case (Cons c cs)
  then show ?case by (cases c) (simp_all add: endpoints_add_edge endpoints_add_node)
qed

lemma filter_single:
  "distinct xs \<Longrightarrow> x \<in> set xs \<Longrightarrow> (\<And>y. y \<in> set xs \<Longrightarrow> Q y \<longleftrightarrow> y = x) \<Longrightarrow> filter Q xs = [x]"
proof (induction xs)
  case Nil then show ?case by simp
next
  case (Cons a xs)
  show ?case
  proof (cases "a = x")
    case True
    with Cons.prems have "\<And>y. y \<in> set xs \<Longrightarrow> \<not> Q y" by auto
    then have "filter Q xs = []" by (simp add: filter_empty_conv)
    with True Cons.prems show ?thesis by simp
  next
    case False
    with Cons show ?thesis by auto
  qed
qed

lemma demo_graph_state:
  "demo_graph =
     \<lparr>nodes = [(''p1'', demo_problem), (''a1'', demo_action), (''r1'', demo_result)],
      edges = [demo_requires, demo_produces],
      db_nodes = [(''p1'', demo_problem), (''a1'', demo_action), (''r1'', demo_result)],
      db_edges = [demo_requires, demo_produces],
      log = [''Loaded 0 nodes and 0 edges from database'']\<rparr>"
  by (simp add: demo_graph_def demo_calls_def kg_run_def empty_graph_def add_node_def add_edge_def
      save_node_to_db_def save_edge_to_db_def same_key_def
      demo_problem_def demo_action_def demo_result_def demo_requires_def demo_produces_def)

subsection \<open>Merging an edge whose key is already stored\<close>

text \<open>
  C1. When both endpoints of the edge being added are nodes of the graph, \<open>add_edge\<close>
  keeps at most one edge per (source, target, relation\_type) triple: a graph without
  two edges of one key stays so. When the key matches a stored edge, the number of
  edges is unchanged; if the new weight is strictly greater than the stored one, the
  stored edge takes the new weight and its evidence becomes the union of the old and
  the new evidence; if the new weight is lower or equal, the call changes nothing.
\<close>

theorem add_edge_merge:
  assumes "source edge \<in> node_ids g" and "target edge \<in> node_ids g"
  shows "(unique_keys g \<longrightarrow> unique_keys (add_edge g edge)) \<and>
         (\<forall>existing. List.find (same_key edge) (edges g) = Some existing \<longrightarrow>
            length (edges (add_edge g edge)) = length (edges g) \<and>
            (weight edge > weight existing \<longrightarrow>
               List.find (same_key edge) (edges (add_edge g edge)) =
                 Some (existing\<lparr>weight := weight edge, evidence := evidence (merged edge existing)\<rparr>) \<and>
               set (evidence (merged edge existing)) = set (evidence existing) \<union> set (evidence edge)) \<and>
            (weight edge \<le> weight existing \<longrightarrow> add_edge g edge = g))"
proof -
  have s: "map_of (nodes g) (source edge) \<noteq> None" and t: "map_of (nodes g) (target edge) \<noteq> None"
    using assms by (simp_all add: in_node_ids)
  have uniq: "unique_keys g \<longrightarrow> unique_keys (add_edge g edge)"
  proof (cases "List.find (same_key edge) (edges g)")
    case None
    then show ?thesis using s t find_None_key[OF None]
      by (simp add: add_edge_def unique_keys_def save_edge_to_db_def)
  next
    case (Some ex)
    then show ?thesis using s t
      by (simp add: add_edge_def unique_keys_def update_edge_in_db_def
            map_update_first_key[where k = edge_key, OF edge_key_merged])
  qed
  have rest: "length (edges (add_edge g edge)) = length (edges g) \<and>
            (weight edge > weight existing \<longrightarrow>
               List.find (same_key edge) (edges (add_edge g edge)) =
                 Some (existing\<lparr>weight := weight edge, evidence := evidence (merged edge existing)\<rparr>) \<and>
               set (evidence (merged edge existing)) = set (evidence existing) \<union> set (evidence edge)) \<and>
            (weight edge \<le> weight existing \<longrightarrow> add_edge g edge = g)"
    if f: "List.find (same_key edge) (edges g) = Some existing" for existing
  proof -
    have P: "same_key edge (merged edge existing)"
      using find_Some_P[OF f] by (simp add: same_key_merged)
    have m: "merged edge existing = existing\<lparr>weight := weight edge, evidence := evidence (merged edge existing)\<rparr>"
      by (simp add: merged_def)
    show ?thesis
      using s t f find_update_first[of "same_key edge" "edges g" existing "merged edge", OF f P] m
      by (auto simp: add_edge_def update_edge_in_db_def length_update_first merged_def)
  qed
  from uniq rest show ?thesis by blast
qed

theorem add_edge_merge_witness:
  "source (demo_requires\<lparr>weight := 9 / 10, evidence := [''doc3'']\<rparr>) \<in> node_ids demo_graph \<and>
   target (demo_requires\<lparr>weight := 9 / 10, evidence := [''doc3'']\<rparr>) \<in> node_ids demo_graph \<and>
   unique_keys demo_graph \<and>
   List.find (same_key (demo_requires\<lparr>weight := 9 / 10, evidence := [''doc3'']\<rparr>))
     (edges demo_graph) = Some demo_requires \<and>
   weight demo_requires < weight (demo_requires\<lparr>weight := 9 / 10, evidence := [''doc3'']\<rparr>) \<and>
   unique_keys (add_edge demo_graph (demo_requires\<lparr>weight := 9 / 10, evidence := [''doc3'']\<rparr>)) \<and>
   length (edges (add_edge demo_graph (demo_requires\<lparr>weight := 9 / 10, evidence := [''doc3'']\<rparr>))) = 2 \<and>
   List.find (same_key (demo_requires\<lparr>weight := 9 / 10, evidence := [''doc3'']\<rparr>))
     (edges (add_edge demo_graph (demo_requires\<lparr>weight := 9 / 10, evidence := [''doc3'']\<rparr>))) =
     Some (demo_requires\<lparr>weight := 9 / 10, evidence := [''doc1'', ''doc3'']\<rparr>) \<and>
   weight demo_requires \<le> weight demo_requires \<and>
   add_edge demo_graph demo_requires = demo_graph"
proof -
  define stronger where "stronger = demo_requires\<lparr>weight := 9 / 10, evidence := [''doc3'']\<rparr>"
  have ids: "node_ids demo_graph = {''p1'', ''a1'', ''r1''}"
    by (simp add: node_ids_def demo_graph_state)
  have s1: "source stronger \<in> node_ids demo_graph" and t1: "target stronger \<in> node_ids demo_graph"
    by (simp_all add: ids stronger_def demo_requires_def)
  have s2: "source demo_requires \<in> node_ids demo_graph"
    and t2: "target demo_requires \<in> node_ids demo_graph"
    by (simp_all add: ids demo_requires_def)
  have u: "unique_keys demo_graph"
    by (simp add: unique_keys_def demo_graph_state edge_key_def demo_requires_def demo_produces_def)
  have f1: "List.find (same_key stronger) (edges demo_graph) = Some demo_requires"
    by (simp add: demo_graph_state same_key_def stronger_def)
  have f2: "List.find (same_key demo_requires) (edges demo_graph) = Some demo_requires"
    by (simp add: demo_graph_state same_key_def)
  have w1: "weight demo_requires < weight stronger"
    by (simp add: stronger_def demo_requires_def)
  have ev: "evidence (merged stronger demo_requires) = [''doc1'', ''doc3'']"
    by (simp add: merged_def stronger_def demo_requires_def)
  have len: "length (edges demo_graph) = 2"
    by (simp add: demo_graph_state)
  from add_edge_merge [OF s1 t1] u f1 w1
  have up: "unique_keys (add_edge demo_graph stronger) \<and>
            length (edges (add_edge demo_graph stronger)) = length (edges demo_graph) \<and>
            List.find (same_key stronger) (edges (add_edge demo_graph stronger)) =
              Some (demo_requires\<lparr>weight := weight stronger,
                                  evidence := evidence (merged stronger demo_requires)\<rparr>)"
    by blast
  from add_edge_merge [OF s2 t2] f2
  have same: "add_edge demo_graph demo_requires = demo_graph"
    by (meson order_refl)
  have ws: "weight stronger = 9 / 10" by (simp add: stronger_def)
  show ?thesis
    using s1 t1 u f1 w1 up same unfolding ev len ws unfolding stronger_def by simp
qed

subsection \<open>Edges with an unknown endpoint\<close>

text \<open>
  C5. When the source id or the target id of the edge is not among the graph's nodes,
  \<open>add_edge\<close> drops the edge: the edge list, the node dict and both database tables are
  unchanged, one warning is logged, and the call returns normally (the function has
  no failing branch).
\<close>

theorem add_edge_rejects_unknown_endpoint:
  assumes "source edge \<notin> node_ids g \<or> target edge \<notin> node_ids g"
  shows "edges (add_edge g edge) = edges g \<and> nodes (add_edge g edge) = nodes g \<and>
         db_edges (add_edge g edge) = db_edges g \<and> db_nodes (add_edge g edge) = db_nodes g \<and>
         (\<exists>msg. log (add_edge g edge) = log g @ [msg])"
  using assms by (auto simp: add_edge_def in_node_ids)

theorem add_edge_rejects_unknown_endpoint_witness:
  "target (demo_requires\<lparr>target := ''zz''\<rparr>) \<notin> node_ids demo_graph \<and>
   edges (add_edge demo_graph (demo_requires\<lparr>target := ''zz''\<rparr>)) = [demo_requires, demo_produces] \<and>
   nodes (add_edge demo_graph (demo_requires\<lparr>target := ''zz''\<rparr>)) = nodes demo_graph \<and>
   db_edges (add_edge demo_graph (demo_requires\<lparr>target := ''zz''\<rparr>)) = db_edges demo_graph \<and>
   db_nodes (add_edge demo_graph (demo_requires\<lparr>target := ''zz''\<rparr>)) = db_nodes demo_graph"
proof -
  have t: "target (demo_requires\<lparr>target := ''zz''\<rparr>) \<notin> node_ids demo_graph"
    by (simp add: node_ids_def demo_graph_state)
  then have "source (demo_requires\<lparr>target := ''zz''\<rparr>) \<notin> node_ids demo_graph \<or>
             target (demo_requires\<lparr>target := ''zz''\<rparr>) \<notin> node_ids demo_graph" ..
  from add_edge_rejects_unknown_endpoint [OF this] t
  show ?thesis by (simp add: demo_graph_state)
qed

subsection \<open>No dangling edges\<close>

text \<open>
  C8. In every graph state reached from the empty graph by a sequence of \<open>add_node\<close>
  and \<open>add_edge\<close> calls, the source id and the target id of every stored edge are keys
  of the node dict.
\<close>

theorem no_dangling_edges:
  "\<forall>e \<in> set (edges (kg_run calls)). source e \<in> node_ids (kg_run calls) \<and> target e \<in> node_ids (kg_run calls)"
proof -
  have "endpoints_ok empty_graph" by (simp add: endpoints_ok_def empty_graph_def)
  then have "endpoints_ok (kg_run calls)" unfolding kg_run_def by (rule endpoints_foldl)
  then show ?thesis by (simp add: endpoints_ok_def)
qed

theorem no_dangling_edges_witness:
  "demo_produces \<in> set (edges (kg_run demo_calls)) \<and>
   source demo_produces \<in> node_ids (kg_run demo_calls) \<and>
   target demo_produces \<in> node_ids (kg_run demo_calls)"
proof -
  have "demo_produces \<in> set (edges (kg_run demo_calls))"
    using demo_graph_state by (simp add: demo_graph_def)
  with no_dangling_edges [of demo_calls] show ?thesis by blast
qed

subsection \<open>Path search on the chain problem, action, result\<close>

text \<open>
  C2, as the code has it. In a graph whose nodes are exactly P (a problem), A (an
  action) and R (a result) and whose edges are exactly P -requires-> A and
  A -produces-> R, \<open>find_solution_path\<close> with a query matching P and a depth bound of
  at least 2 (so also 3) returns exactly one path. The path lists the problem node
  itself as its first step, so it has three steps, P then A then R, and its length
  field is 3; its score is 2.1, which is positive.
\<close>

theorem find_solution_path_chain:
  assumes dict: "distinct (map fst (nodes g))"
    and ns: "set (nodes g) = {(node_id P, P), (node_id A, A), (node_id R, R)}"
    and ids: "node_id P \<noteq> node_id A" "node_id P \<noteq> node_id R" "node_id A \<noteq> node_id R"
    and types: "node_type P = ''problem''" "node_type A = ''action''" "node_type R = ''result''"
    and es: "edges g = [e1, e2] \<or> edges g = [e2, e1]"
    and e1: "source e1 = node_id P" "target e1 = node_id A" "relation_type e1 = ''requires''"
    and e2: "source e2 = node_id A" "target e2 = node_id R" "relation_type e2 = ''produces''"
    and q: "node_matches (lower query) P"
    and depth: "2 \<le> max_depth"
  shows "find_solution_path g query max_depth =
           [\<lparr>path = [\<lparr>step = 1, node = P, relation = ''start'', entry_type = ''problem''\<rparr>,
                     \<lparr>step = 2, node = A, relation = ''requires'', entry_type = ''action''\<rparr>,
                     \<lparr>step = 3, node = R, relation = ''produces'', entry_type = ''result''\<rparr>],
             path_length = 3, score = 21 / 10,
             sequence = [label P, label A, label R]\<rparr>]"
proof -
  have lP: "map_of (nodes g) (node_id P) = Some P"
    and lA: "map_of (nodes g) (node_id A) = Some A"
    and lR: "map_of (nodes g) (node_id R) = Some R"
    using dict ns by (auto intro!: map_of_is_SomeI)
  have dn: "distinct (map snd (nodes g))"
  proof -
    have "distinct (nodes g)" using dict by (rule distinct_map[THEN iffD1, THEN conjunct1])
    moreover have "inj_on snd (set (nodes g))"
      unfolding ns using ids by (auto simp: inj_on_def)
    ultimately show ?thesis by (simp add: distinct_map)
  qed
  have sn: "set (map snd (nodes g)) = {P, A, R}" using ns by simp
  have fn: "find_nodes g query (Some ''problem'') 10 = [P]"
  proof -
    have "filter (\<lambda>node. \<not> filtered_out (Some ''problem'') (node_type node)
                                    \<and> node_matches (lower query) node) (map snd (nodes g)) = [P]"
      using dn
    proof (rule filter_single)
      show "P \<in> set (map snd (nodes g))" using sn by simp
    next
      fix y assume "y \<in> set (map snd (nodes g))"
      then have "y = P \<or> y = A \<or> y = R" using sn by auto
      then show "(\<not> filtered_out (Some ''problem'') (node_type y) \<and> node_matches (lower query) y) = (y = P)"
        using types q by (auto simp: filtered_out_def)
    qed
    then show ?thesis by (simp add: find_nodes_def slice_to_def)
  qed
  have relP: "get_related_nodes g (node_id P) None ''out'' = [(A, e1)]"
    using es e1 e2 ids lP lA lR
    by (auto simp: get_related_nodes_def related_of_def filtered_out_def)
  have relA: "get_related_nodes g (node_id A) None ''out'' = [(R, e2)]"
    using es e1 e2 ids lP lA lR
    by (auto simp: get_related_nodes_def related_of_def filtered_out_def)
  define p3 where "p3 = [(''start'', node_id P, ''problem''), (''requires'', node_id A, ''action''),
                          (''produces'', node_id R, ''result'')]"
  have sc: "calculate_path_score p3 = 21 / 10"
    by (simp add: calculate_path_score_def p3_def card_insert_if)
  have dR: "dfs g max_depth V (node_id R) p3 2 sq =
              [\<lparr>fp_path = p3, fp_sequence = sq, fp_score = 21 / 10\<rparr>]" for V sq
    using depth lR types sc by (subst dfs.simps) (simp add: p3_def)
  have dA: "dfs g max_depth {(node_id P, node_id A, ''requires'')} (node_id A)
               [(''start'', node_id P, ''problem''), (''requires'', node_id A, ''action'')] 1 sq =
              [\<lparr>fp_path = p3, fp_sequence = sq @ [label R], fp_score = 21 / 10\<rparr>]" for sq
    using depth lA types relA e2 ids dR[unfolded p3_def]
    by (subst dfs.simps) (simp add: p3_def)
  have dP: "dfs g max_depth {} (node_id P) [(''start'', node_id P, ''problem'')] 0 [label P] =
              [\<lparr>fp_path = p3, fp_sequence = [label P, label A, label R], fp_score = 21 / 10\<rparr>]"
    using depth lP types relP e1 dA[of "[label P, label A]"]
    by (subst dfs.simps) simp
  have fmt: "format_steps g 0 p3 =
       [\<lparr>step = 1, node = P, relation = ''start'', entry_type = ''problem''\<rparr>,
        \<lparr>step = 2, node = A, relation = ''requires'', entry_type = ''action''\<rparr>,
        \<lparr>step = 3, node = R, relation = ''produces'', entry_type = ''result''\<rparr>]"
    using lP lA lR by (simp add: p3_def)
  show ?thesis
    by (simp add: find_solution_path_def fn dP slice_to_def format_path_def fmt)
qed

theorem find_solution_path_chain_witness:
  "distinct (map fst (nodes demo_graph)) \<and>
   set (nodes demo_graph) =
     {(node_id demo_problem, demo_problem), (node_id demo_action, demo_action),
      (node_id demo_result, demo_result)} \<and>
   edges demo_graph = [demo_requires, demo_produces] \<and>
   node_matches (lower ''PUMP'') demo_problem \<and> (2::int) \<le> 3 \<and>
   map path_length (find_solution_path demo_graph ''PUMP'' 3) = [3] \<and>
   map sequence (find_solution_path demo_graph ''PUMP'' 3) =
     [[''Pump leak'', ''Replace seal'', ''Pump dry'']] \<and>
   map score (find_solution_path demo_graph ''PUMP'' 3) = [21 / 10]"
proof -
  have d: "distinct (map fst (nodes demo_graph))"
    by (simp add: demo_graph_state)
  have ns: "set (nodes demo_graph) =
     {(node_id demo_problem, demo_problem), (node_id demo_action, demo_action),
      (node_id demo_result, demo_result)}"
    by (simp add: demo_graph_state demo_problem_def demo_action_def demo_result_def)
  have es: "edges demo_graph = [demo_requires, demo_produces]"
    by (simp add: demo_graph_state)
  then have es': "edges demo_graph = [demo_requires, demo_produces] \<or>
                  edges demo_graph = [demo_produces, demo_requires]" ..
  have q: "node_matches (lower ''PUMP'') demo_problem"
    by code_simp
  have r: "find_solution_path demo_graph ''PUMP'' 3 =
           [\<lparr>path = [\<lparr>step = 1, node = demo_problem, relation = ''start'', entry_type = ''problem''\<rparr>,
                     \<lparr>step = 2, node = demo_action, relation = ''requires'', entry_type = ''action''\<rparr>,
                     \<lparr>step = 3, node = demo_result, relation = ''produces'', entry_type = ''result''\<rparr>],
             path_length = 3, score = 21 / 10,
             sequence = [label demo_problem, label demo_action, label demo_result]\<rparr>]"
    by (rule find_solution_path_chain [OF d ns _ _ _ _ _ _ es' _ _ _ _ _ _ q])
       (simp_all add: demo_problem_def demo_action_def demo_result_def demo_requires_def
          demo_produces_def)
  show ?thesis
    using d ns es q unfolding r
    by (simp add: demo_problem_def demo_action_def demo_result_def)
qed

text \<open>
  C2 as the specification words it asks for a path of length 2. On the small graph
  the one path returned has length 3, not 2.
\<close>

theorem find_solution_path_length_counterexample:
  "map path_length (find_solution_path demo_graph ''PUMP'' 3) = [3] \<and>
   map path_length (find_solution_path demo_graph ''PUMP'' 3) \<noteq> [2]"
  by code_simp

section \<open>Properties of the conversational memory\<close>

subsection \<open>Auxiliary facts\<close>

lemma keyword_loop_bonus:
  "keyword_loop ks cl x = x + bonus (list_ex (\<lambda>keyword. str_in keyword cl) ks) (15 / 100)"
  by (induction ks) (auto simp: bonus_def)

lemma strip_blank: "\<forall>ch \<in> set c. is_space ch \<Longrightarrow> strip c = []"
  by (auto simp: strip_def dest: set_dropWhileD)

lemma keeps_rows_refl: "keeps_rows m m"
  by (simp add: keeps_rows_def)

lemma keeps_rows_trans: "keeps_rows a b \<Longrightarrow> keeps_rows b c \<Longrightarrow> keeps_rows a c"
proof -
  assume ab: "keeps_rows a b" and bc: "keeps_rows b c"
  let ?la = "long_term_memory a" and ?lb = "long_term_memory b" and ?lc = "long_term_memory c"
  have len: "length ?la \<le> length ?lb" "length ?lb \<le> length ?lc"
    using ab bc by (simp_all add: keeps_rows_def)
  have "map unflag (take (length ?la) ?lc) = take (length ?la) (map unflag (take (length ?lb) ?lc))"
    using len by (simp add: take_map min_def)
  also have "\<dots> = take (length ?la) (map unflag ?lb)"
    using bc by (simp add: keeps_rows_def)
  also have "\<dots> = map unflag (take (length ?la) ?lb)" by (simp add: take_map)
  also have "\<dots> = map unflag ?la" using ab by (simp add: keeps_rows_def)
  finally show ?thesis using ab bc len by (simp add: keeps_rows_def)
qed

lemma unflag_mark: "unflag (mark_summarized u d r) = unflag r"
  by (simp add: unflag_def mark_summarized_def)

lemma keeps_rows_compress_day: "keeps_rows m (compress_day env s m day)"
  by (auto simp: compress_day_def keeps_rows_def Let_def unflag_mark o_def split: option.splits)

lemma keeps_rows_foldl: "keeps_rows m (foldl (compress_day env s) m days)"
proof (induction days arbitrary: m)
  case Nil show ?case by (simp add: keeps_rows_refl)
next
  case (Cons day days)
  show ?case
    using keeps_rows_trans[OF keeps_rows_compress_day Cons.IH] by simp
qed

lemma keeps_rows_log: "keeps_rows (m\<lparr>mem_log := l\<rparr>) m' \<Longrightarrow> keeps_rows m m'"
  by (simp add: keeps_rows_def)

lemma keeps_rows_compress: "keeps_rows m (compress_old_memory_if_needed env clk m)"
  using keeps_rows_foldl[of "m\<lparr>mem_log := mem_log m @ [''Comprimiendo mensajes antiguos...'']\<rparr>"]
  by (auto simp: compress_old_memory_if_needed_def compress_old_conversations_def Let_def
      keeps_rows_refl keeps_rows_def split: option.splits)

lemma keeps_rows_nth:
  assumes "keeps_rows m m'" and "n < length (long_term_memory m)"
  shows "unflag (long_term_memory m' ! n) = unflag (long_term_memory m ! n)"
proof -
  let ?k = "length (long_term_memory m)"
  have le: "?k \<le> length (long_term_memory m')" using assms(1) by (simp add: keeps_rows_def)
  have eq: "map unflag (take ?k (long_term_memory m')) = map unflag (long_term_memory m)"
    using assms(1) by (simp add: keeps_rows_def)
  have "unflag (long_term_memory m' ! n) = map unflag (take ?k (long_term_memory m')) ! n"
    using assms(2) le by simp
  also have "\<dots> = map unflag (long_term_memory m) ! n" by (simp only: eq)
  also have "\<dots> = unflag (long_term_memory m ! n)" using assms(2) by simp
  finally show ?thesis .
qed

subsection \<open>The importance heuristic\<close>

text \<open>
  C3. For every role, content and metadata, \<open>_calculate_importance\<close> returns the
  minimum of 1 and the sum of 0.5, 0.1 if the role is \<open>user\<close>, 0.1 if the content is
  longer than 200 characters, 0.1 more if it is longer than 500, 0.15 if the content
  (compared in lower case) contains one of the importance keywords, 0.1 if the metadata
  flag \<open>tool_used\<close> is set and 0.1 if the flag \<open>reasoning\<close> is set; the result lies
  between 0 and 1.
\<close>

theorem calculate_importance_formula:
  "calculate_importance r c md =
     min 1 (5 / 10 + bonus (r = ''user'') (1 / 10) + bonus (length c > 200) (1 / 10)
            + bonus (length c > 500) (1 / 10) + bonus (has_keyword c) (15 / 100)
            + bonus (flag_set md ''tool_used'') (1 / 10)
            + bonus (flag_set md ''reasoning'') (1 / 10)) \<and>
   0 \<le> calculate_importance r c md \<and> calculate_importance r c md \<le> 1"
proof -
  have empty: "\<not> truthy (dict_get [] k)" for k by (simp add: dict_get_def)
  have eq: "calculate_importance r c md =
     min 1 (5 / 10 + bonus (r = ''user'') (1 / 10) + bonus (length c > 200) (1 / 10)
            + bonus (length c > 500) (1 / 10) + bonus (has_keyword c) (15 / 100)
            + bonus (flag_set md ''tool_used'') (1 / 10)
            + bonus (flag_set md ''reasoning'') (1 / 10))"
    by (cases md)
       (auto simp: calculate_importance_def keyword_loop_bonus has_keyword_def flag_set_def
          bonus_def Let_def empty min_def)
  have nonneg: "0 \<le> bonus b x" if "0 \<le> x" for b x using that by (simp add: bonus_def)
  have "0 \<le> 5 / 10 + bonus (r = ''user'') (1 / 10) + bonus (length c > 200) (1 / 10)
            + bonus (length c > 500) (1 / 10) + bonus (has_keyword c) (15 / 100)
            + bonus (flag_set md ''tool_used'') (1 / 10)
            + bonus (flag_set md ''reasoning'') (1 / 10)"
    by (intro add_nonneg_nonneg nonneg) simp_all
  with eq show ?thesis by simp
qed

theorem calculate_importance_formula_witness:
  "calculate_importance ''user'' ''Quiero recordar esto'' (Some [(''tool_used'', PBool True)])
     = 85 / 100 \<and>
   0 \<le> calculate_importance ''user'' ''Quiero recordar esto'' (Some [(''tool_used'', PBool True)]) \<and>
   calculate_importance ''user'' ''Quiero recordar esto'' (Some [(''tool_used'', PBool True)]) \<le> 1"
proof -
  have k: "has_keyword ''Quiero recordar esto''" by code_simp
  have f1: "flag_set (Some [(''tool_used'', PBool True)]) ''tool_used''" by code_simp
  have f2: "\<not> flag_set (Some [(''tool_used'', PBool True)]) ''reasoning''" by code_simp
  show ?thesis
    using calculate_importance_formula
            [of "''user''" "''Quiero recordar esto''" "Some [(''tool_used'', PBool True)]"]
    by (simp add: k f1 f2 bonus_def)
qed

subsection \<open>Blank content\<close>

text \<open>
  C9. When the content is empty or consists of whitespace only, \<open>add\<close> changes nothing:
  the state after the call is the state before it, with the same long-term table
  (and so the same summarised flags), the same short-term list and the same record of
  embedder calls.
\<close>

theorem add_blank_content_is_noop:
  "c = [] \<or> (\<forall>ch \<in> set c. is_space ch) \<Longrightarrow>
     EnhancedMemory_add env clk mem r c md cid imp = mem"
  by (auto simp: EnhancedMemory_add_def strip_blank)

theorem add_blank_content_is_noop_witness:
  "is_space (CHR '' '') \<and>
   EnhancedMemory_add demo_env demo_clock demo_memory ''user'' '' '' None None (5 / 10)
     = demo_memory"
proof -
  have sp: "is_space (CHR '' '')" by code_simp
  then have "'' '' = [] \<or> (\<forall>ch \<in> set '' ''. is_space ch)" by simp
  from add_blank_content_is_noop [OF this] sp show ?thesis by simp
qed

subsection \<open>The importance that is stored\<close>

text \<open>
  C10. For content that is not blank, \<open>add\<close> treats the value 0.5 of its importance
  argument as "not supplied": the row appended to the long-term table, and the entry
  appended to the short-term list, carry \<open>_calculate_importance(role, content,
  metadata)\<close> when the argument equals 0.5 (also when the caller passed 0.5 on purpose)
  and the argument itself otherwise. The row is the one at the first free position of
  the table; compaction, which runs at the end of the call, can only set its
  summarised flag. The short-term entry is the last one whenever the list may hold at
  least one message.
\<close>

theorem add_importance_sentinel:
  assumes "strip c \<noteq> []"
  shows "length (long_term_memory mem)
           < length (long_term_memory (EnhancedMemory_add env clk mem r c md cid imp)) \<and>
         unflag (long_term_memory (EnhancedMemory_add env clk mem r c md cid imp)
                   ! length (long_term_memory mem)) =
           \<lparr>row_id = next_row_id mem, user_id = mem_user_id mem, conversation_id = cid,
            role = r, content = c, embedding = encode_query env c,
            metadata_json = (case md of None \<Rightarrow> None | Some d \<Rightarrow> if d \<noteq> [] then Some d else None),
            timestamp = current_timestamp clk,
            importance_score = (if imp = 5 / 10 then calculate_importance r c md else imp),
            is_summarized = False\<rparr> \<and>
         (1 \<le> max_short_term mem \<longrightarrow>
            short_term (EnhancedMemory_add env clk mem r c md cid imp) \<noteq> [] \<and>
            last (short_term (EnhancedMemory_add env clk mem r c md cid imp)) =
              \<lparr>msg_role = r, msg_content = c,
               msg_metadata = (case md of None \<Rightarrow> [] | Some d \<Rightarrow> d),
               msg_timestamp = now_iso clk,
               msg_importance = (if imp = 5 / 10 then calculate_importance r c md else imp)\<rparr>)"
proof -
  define stored where "stored = (if imp = 5 / 10 then calculate_importance r c md else imp)"
  define row where "row =
     \<lparr>row_id = next_row_id mem, user_id = mem_user_id mem, conversation_id = cid,
      role = r, content = c, embedding = encode_query env c,
      metadata_json = (case md of None \<Rightarrow> None | Some d \<Rightarrow> if d \<noteq> [] then Some d else None),
      timestamp = current_timestamp clk, importance_score = stored, is_summarized = False\<rparr>"
  define msg where "msg =
     \<lparr>msg_role = r, msg_content = c, msg_metadata = (case md of None \<Rightarrow> [] | Some d \<Rightarrow> d),
      msg_timestamp = now_iso clk, msg_importance = stored\<rparr>"
  define st where "st = (if int (length (short_term mem @ [msg])) > max_short_term mem
                         then tl (short_term mem @ [msg]) else short_term mem @ [msg])"
  define mid where "mid =
     mem\<lparr>embed_calls := embed_calls mem @ [c],
         mem_log := (case encode_query env c of None \<Rightarrow> mem_log mem @ [''Error generando embedding'']
                     | Some b \<Rightarrow> mem_log mem),
         long_term_memory := long_term_memory mem @ [row],
         next_row_id := next_row_id mem + 1,
         short_term := st\<rparr>"
  have c: "c \<noteq> []" using assms by (auto simp: strip_def)
  have add: "EnhancedMemory_add env clk mem r c md cid imp = compress_old_memory_if_needed env clk mid"
    using assms c
    by (simp add: EnhancedMemory_add_def Let_def mid_def row_def msg_def st_def stored_def)
  have k: "keeps_rows mid (compress_old_memory_if_needed env clk mid)"
    by (rule keeps_rows_compress)
  have lm: "long_term_memory mid = long_term_memory mem @ [row]" by (simp add: mid_def)
  have n: "length (long_term_memory mem) < length (long_term_memory mid)" by (simp add: lm)
  have len: "length (long_term_memory mem) < length (long_term_memory (compress_old_memory_if_needed env clk mid))"
    using k n by (simp add: keeps_rows_def)
  have "unflag (long_term_memory (compress_old_memory_if_needed env clk mid) ! length (long_term_memory mem))
        = unflag (long_term_memory mid ! length (long_term_memory mem))"
    by (rule keeps_rows_nth[OF k n])
  also have "\<dots> = row" by (simp add: lm unflag_def row_def)
  finally have r: "unflag (long_term_memory (compress_old_memory_if_needed env clk mid) ! length (long_term_memory mem)) = row" .
  have sh: "short_term (compress_old_memory_if_needed env clk mid) = st"
    using k by (simp add: keeps_rows_def mid_def)
  have st1: "1 \<le> max_short_term mem \<Longrightarrow> st \<noteq> [] \<and> last st = msg"
    by (cases "short_term mem") (auto simp: st_def)
  show ?thesis
    unfolding add using len r sh st1 by (simp add: row_def msg_def stored_def)
qed

theorem add_importance_sentinel_witness:
  "strip ''Quiero recordar esto'' \<noteq> [] \<and> 1 \<le> max_short_term demo_memory \<and>
   unflag (long_term_memory
      (EnhancedMemory_add demo_env demo_clock demo_memory ''user'' ''Quiero recordar esto''
         None None (5 / 10)) ! 1) =
     \<lparr>row_id = 2, user_id = ''u1'', conversation_id = None, role = ''user'',
      content = ''Quiero recordar esto'', embedding = Some [20, 1], metadata_json = None,
      timestamp = ''2025-03-10 09:30:00'', importance_score = 75 / 100,
      is_summarized = False\<rparr> \<and>
   msg_importance (last (short_term
      (EnhancedMemory_add demo_env demo_clock demo_memory ''user'' ''Quiero recordar esto''
         None None (5 / 10)))) = 75 / 100 \<and>
   unflag (long_term_memory
      (EnhancedMemory_add demo_env demo_clock demo_memory ''user'' ''Quiero recordar esto''
         None None (9 / 10)) ! 1) =
     \<lparr>row_id = 2, user_id = ''u1'', conversation_id = None, role = ''user'',
      content = ''Quiero recordar esto'', embedding = Some [20, 1], metadata_json = None,
      timestamp = ''2025-03-10 09:30:00'', importance_score = 9 / 10,
      is_summarized = False\<rparr> \<and>
   msg_importance (last (short_term
      (EnhancedMemory_add demo_env demo_clock demo_memory ''user'' ''Quiero recordar esto''
         None None (9 / 10)))) = 9 / 10"
proof -
  have s: "strip ''Quiero recordar esto'' \<noteq> []" by code_simp
  have m: "1 \<le> max_short_term demo_memory" by (simp add: demo_memory_def)
  have ci: "calculate_importance ''user'' ''Quiero recordar esto'' None = 75 / 100" by code_simp
  have n: "length (long_term_memory demo_memory) = 1" by (simp add: demo_memory_def)
  have e: "encode_query demo_env ''Quiero recordar esto'' = Some [20, 1]"
    by (simp add: demo_env_def)
  have d: "next_row_id demo_memory = 2" "mem_user_id demo_memory = ''u1''"
    "current_timestamp demo_clock = ''2025-03-10 09:30:00''"
    by (simp_all add: demo_memory_def demo_clock_def)
  show ?thesis
    using s m
      add_importance_sentinel [OF s, of demo_memory demo_env demo_clock "''user''" None None "5 / 10"]
      add_importance_sentinel [OF s, of demo_memory demo_env demo_clock "''user''" None None "9 / 10"]
    unfolding n ci e d by simp
qed

section \<open>Properties of the vector stores\<close>

text \<open>
  C6, as the code has it. When the number of embedding rows differs from the number
  of metadata entries, \<open>add\<close> of either store raises \<open>ValueError\<close> with the message
  "Embeddings and metas size mismatch" (the error the specification calls
  \<open>DimensionMismatchError\<close>) and leaves the store unchanged. When the counts are
  equal, the in-memory store accepts the rows exactly when it is still empty or its
  stored width equals the width of the new rows, and the FAISS store exactly when
  \<open>faiss\<close> can be imported and it has no index yet or the index has the width of the
  new rows; an accepted call appends the metadata entries, a refused one leaves the
  store unchanged.
\<close>

theorem vector_store_add_count_check:
  "(shape0 e \<noteq> length ms \<longrightarrow>
      InMemoryVectorStore_add s e ms = (Some size_mismatch, s) \<and>
      FaissVectorStore_add env fs e ms = (Some size_mismatch, fs)) \<and>
   (shape0 e = length ms \<longrightarrow>
      (fst (InMemoryVectorStore_add s e ms) = None \<longleftrightarrow> width_fits_memory s e) \<and>
      (fst (InMemoryVectorStore_add s e ms) = None \<longrightarrow>
         im_metas (snd (InMemoryVectorStore_add s e ms)) = im_metas s @ ms) \<and>
      (fst (InMemoryVectorStore_add s e ms) \<noteq> None \<longrightarrow>
         snd (InMemoryVectorStore_add s e ms) = s) \<and>
      (fst (FaissVectorStore_add env fs e ms) = None \<longleftrightarrow>
         faiss_installed env \<and> width_fits_index fs e) \<and>
      (fst (FaissVectorStore_add env fs e ms) = None \<longrightarrow>
         fa_metas (snd (FaissVectorStore_add env fs e ms)) = fa_metas fs @ ms) \<and>
      (fst (FaissVectorStore_add env fs e ms) \<noteq> None \<longrightarrow>
         snd (FaissVectorStore_add env fs e ms) = fs))"
proof -
  have mem: "shape0 e = length ms \<Longrightarrow>
      (fst (InMemoryVectorStore_add s e ms) = None \<longleftrightarrow> width_fits_memory s e) \<and>
      (fst (InMemoryVectorStore_add s e ms) = None \<longrightarrow>
         im_metas (snd (InMemoryVectorStore_add s e ms)) = im_metas s @ ms) \<and>
      (fst (InMemoryVectorStore_add s e ms) \<noteq> None \<longrightarrow>
         snd (InMemoryVectorStore_add s e ms) = s)"
    by (cases "im_embeddings s")
       (auto simp: InMemoryVectorStore_add_def width_fits_memory_def vstack_def)
  have fa: "shape0 e = length ms \<Longrightarrow>
      (fst (FaissVectorStore_add env fs e ms) = None \<longleftrightarrow>
         faiss_installed env \<and> width_fits_index fs e) \<and>
      (fst (FaissVectorStore_add env fs e ms) = None \<longrightarrow>
         fa_metas (snd (FaissVectorStore_add env fs e ms)) = fa_metas fs @ ms) \<and>
      (fst (FaissVectorStore_add env fs e ms) \<noteq> None \<longrightarrow>
         snd (FaissVectorStore_add env fs e ms) = fs)"
    by (cases "fa_index fs")
       (auto simp: FaissVectorStore_add_def width_fits_index_def ensure_index_def index_add_def)
  have mis: "shape0 e \<noteq> length ms \<Longrightarrow>
      InMemoryVectorStore_add s e ms = (Some size_mismatch, s) \<and>
      FaissVectorStore_add env fs e ms = (Some size_mismatch, fs)"
    by (simp add: InMemoryVectorStore_add_def FaissVectorStore_add_def)
  from mem fa mis show ?thesis by blast
qed

theorem vector_store_add_count_check_witness:
  "shape0 demo_wide \<noteq> length ([] :: meta list) \<and>
   InMemoryVectorStore_add demo_store demo_wide [] = (Some size_mismatch, demo_store) \<and>
   FaissVectorStore_add demo_faiss_env demo_faiss_store demo_wide [] =
     (Some size_mismatch, demo_faiss_store) \<and>
   shape0 demo_wide = length [[(''id'', ''doc2::chunk_0'')]] \<and>
   \<not> width_fits_memory demo_store demo_wide \<and>
   fst (InMemoryVectorStore_add demo_store demo_wide [[(''id'', ''doc2::chunk_0'')]]) \<noteq> None \<and>
   snd (InMemoryVectorStore_add demo_store demo_wide [[(''id'', ''doc2::chunk_0'')]]) = demo_store \<and>
   width_fits_memory \<lparr>im_embeddings = None, im_metas = []\<rparr> demo_wide \<and>
   fst (InMemoryVectorStore_add \<lparr>im_embeddings = None, im_metas = []\<rparr> demo_wide
          [[(''id'', ''doc2::chunk_0'')]]) = None \<and>
   im_metas (snd (InMemoryVectorStore_add \<lparr>im_embeddings = None, im_metas = []\<rparr> demo_wide
          [[(''id'', ''doc2::chunk_0'')]])) = [[(''id'', ''doc2::chunk_0'')]] \<and>
   faiss_installed demo_faiss_env \<and>
   width_fits_index \<lparr>fa_index = None, fa_metas = []\<rparr> demo_wide \<and>
   fst (FaissVectorStore_add demo_faiss_env \<lparr>fa_index = None, fa_metas = []\<rparr> demo_wide
          [[(''id'', ''doc2::chunk_0'')]]) = None \<and>
   fa_metas (snd (FaissVectorStore_add demo_faiss_env \<lparr>fa_index = None, fa_metas = []\<rparr>
          demo_wide [[(''id'', ''doc2::chunk_0'')]])) = [[(''id'', ''doc2::chunk_0'')]] \<and>
   \<not> width_fits_index demo_faiss_store demo_wide \<and>
   snd (FaissVectorStore_add demo_faiss_env demo_faiss_store demo_wide
          [[(''id'', ''doc2::chunk_0'')]]) = demo_faiss_store"
proof -
  have n0: "shape0 demo_wide \<noteq> length ([] :: meta list)" by (simp add: demo_wide_def)
  have n1: "shape0 demo_wide = length [[(''id'', ''doc2::chunk_0'')]]" by (simp add: demo_wide_def)
  have w1: "\<not> width_fits_memory demo_store demo_wide"
    by (simp add: width_fits_memory_def demo_store_def demo_wide_def)
  have w2: "width_fits_memory \<lparr>im_embeddings = None, im_metas = []\<rparr> demo_wide"
    by (simp add: width_fits_memory_def)
  have w3: "width_fits_index \<lparr>fa_index = None, fa_metas = []\<rparr> demo_wide"
    by (simp add: width_fits_index_def)
  have w4: "\<not> width_fits_index demo_faiss_store demo_wide"
    by (simp add: width_fits_index_def demo_faiss_store_def demo_wide_def)
  have inst: "faiss_installed demo_faiss_env" by (simp add: demo_faiss_env_def)
  note a = vector_store_add_count_check [of demo_wide "[]" demo_store demo_faiss_env demo_faiss_store]
  note b = vector_store_add_count_check
             [of demo_wide "[[(''id'', ''doc2::chunk_0'')]]" demo_store demo_faiss_env demo_faiss_store]
  note c = vector_store_add_count_check
             [of demo_wide "[[(''id'', ''doc2::chunk_0'')]]" "\<lparr>im_embeddings = None, im_metas = []\<rparr>"
                 demo_faiss_env "\<lparr>fa_index = None, fa_metas = []\<rparr>"]
  from a n0 have A: "InMemoryVectorStore_add demo_store demo_wide [] = (Some size_mismatch, demo_store) \<and>
      FaissVectorStore_add demo_faiss_env demo_faiss_store demo_wide [] =
        (Some size_mismatch, demo_faiss_store)" by blast
  from b n1 w1 w4 have B:
    "fst (InMemoryVectorStore_add demo_store demo_wide [[(''id'', ''doc2::chunk_0'')]]) \<noteq> None \<and>
     snd (InMemoryVectorStore_add demo_store demo_wide [[(''id'', ''doc2::chunk_0'')]]) = demo_store \<and>
     snd (FaissVectorStore_add demo_faiss_env demo_faiss_store demo_wide
          [[(''id'', ''doc2::chunk_0'')]]) = demo_faiss_store" by blast
  from c n1 w2 w3 inst have C:
    "fst (InMemoryVectorStore_add \<lparr>im_embeddings = None, im_metas = []\<rparr> demo_wide
          [[(''id'', ''doc2::chunk_0'')]]) = None \<and>
     im_metas (snd (InMemoryVectorStore_add \<lparr>im_embeddings = None, im_metas = []\<rparr> demo_wide
          [[(''id'', ''doc2::chunk_0'')]])) = im_metas \<lparr>im_embeddings = None, im_metas = []\<rparr> @ [[(''id'', ''doc2::chunk_0'')]] \<and>
     fst (FaissVectorStore_add demo_faiss_env \<lparr>fa_index = None, fa_metas = []\<rparr> demo_wide
          [[(''id'', ''doc2::chunk_0'')]]) = None \<and>
     fa_metas (snd (FaissVectorStore_add demo_faiss_env \<lparr>fa_index = None, fa_metas = []\<rparr>
          demo_wide [[(''id'', ''doc2::chunk_0'')]])) = fa_metas \<lparr>fa_index = None, fa_metas = []\<rparr> @ [[(''id'', ''doc2::chunk_0'')]]" by blast
  from n0 n1 w1 w2 w3 w4 inst A B C show ?thesis by simp
qed

text \<open>
  C6 as the specification words it promises success whenever the counts are equal.
  One row of width 2 with one metadata entry is refused by an in-memory store and by
  a FAISS store that hold vectors of width 1.
\<close>

theorem vector_store_add_equal_counts_counterexample:
  "shape0 demo_wide = length [[(''id'', ''doc2::chunk_0'')]] \<and>
   fst (InMemoryVectorStore_add demo_store demo_wide [[(''id'', ''doc2::chunk_0'')]]) =
     Some (ValueError ''all the input array dimensions except for the concatenation axis must match exactly'') \<and>
   fst (FaissVectorStore_add demo_faiss_env demo_faiss_store demo_wide
          [[(''id'', ''doc2::chunk_0'')]]) = Some AssertionError"
  by code_simp

section \<open>Properties of the embedding backend\<close>

text \<open>In the model \<open>NotFittedError\<close> is raised by an unfitted vectorizer, the state a
  failed \<open>fit_corpus\<close> leaves behind.\<close>

lemma encode_after_failed_fit:
  assumes "backend b = ''tfidf''" and "vectorizer b = Some v" and "\<not> has_terms env texts"
  shows "encode_texts (snd (fit_corpus env b texts)) later = Inl NotFittedError"
  using assms
  by (simp add: fit_corpus_def vectorizer_fit_def encode_texts_def vectorizer_transform_def)

text \<open>
  C4, as the code has it. A TF-IDF backend that \<open>__init__\<close> returns has already been
  fitted, on the dummy text; so \<open>encode_texts\<close> and \<open>encode_query\<close> called before any
  \<open>fit_corpus\<close> do not raise \<open>NotFittedError\<close>.
\<close>

theorem tfidf_encode_before_fit:
  assumes "EmbeddingBackend_init env name = Inr b" and "backend b = ''tfidf''"
  shows "vectorizer b = Some \<lparr>vocabulary_from = Some [''initialization dummy text'']\<rparr> \<and>
         encode_texts b texts \<noteq> Inl NotFittedError \<and>
         EmbeddingBackend_encode_query b query \<noteq> Inl NotFittedError"
proof -
  from assms have b: "b = \<lparr>backend = ''tfidf'', model = None,
        vectorizer = Some \<lparr>vocabulary_from = Some [''initialization dummy text'']\<rparr>,
        model_name = name\<rparr>"
    by (auto simp: EmbeddingBackend_init_def vectorizer_fit_def split: if_splits)
  have e: "encode_texts b ts \<noteq> Inl NotFittedError" for ts
    by (simp add: b encode_texts_def vectorizer_transform_def)
  have q: "EmbeddingBackend_encode_query b query \<noteq> Inl NotFittedError"
    by (simp add: b EmbeddingBackend_encode_query_def encode_texts_def vectorizer_transform_def)
  from e q show ?thesis by (simp add: b)
qed

theorem tfidf_encode_before_fit_witness:
  "EmbeddingBackend_init tfidf_env ''all-MiniLM-L6-v2'' =
     Inr \<lparr>backend = ''tfidf'', model = None,
          vectorizer = Some \<lparr>vocabulary_from = Some [''initialization dummy text'']\<rparr>,
          model_name = ''all-MiniLM-L6-v2''\<rparr> \<and>
   encode_texts \<lparr>backend = ''tfidf'', model = None,
          vectorizer = Some \<lparr>vocabulary_from = Some [''initialization dummy text'']\<rparr>,
          model_name = ''all-MiniLM-L6-v2''\<rparr> [''hola'', ''mundo''] \<noteq> Inl NotFittedError \<and>
   encode_texts \<lparr>backend = ''tfidf'', model = None,
          vectorizer = Some \<lparr>vocabulary_from = Some [''initialization dummy text'']\<rparr>,
          model_name = ''all-MiniLM-L6-v2''\<rparr> [] \<noteq> Inl NotFittedError"
proof -
  have i: "EmbeddingBackend_init tfidf_env ''all-MiniLM-L6-v2'' =
     Inr \<lparr>backend = ''tfidf'', model = None,
          vectorizer = Some \<lparr>vocabulary_from = Some [''initialization dummy text'']\<rparr>,
          model_name = ''all-MiniLM-L6-v2''\<rparr>"
    by (simp add: EmbeddingBackend_init_def tfidf_env_def vectorizer_fit_def)
  from tfidf_encode_before_fit [OF i, of "[''hola'', ''mundo'']"]
       tfidf_encode_before_fit [OF i, of "[]"] i
  show ?thesis by simp
qed

text \<open>
  C4 as the specification words it asks for \<open>NotFittedError\<close>. In a process without
  SentenceTransformers the constructor returns a fitted TF-IDF backend, and encoding
  before any \<open>fit_corpus\<close> does not raise it.
\<close>

theorem tfidf_encode_before_fit_counterexample:
  "EmbeddingBackend_init tfidf_env ''all-MiniLM-L6-v2'' =
     Inr \<lparr>backend = ''tfidf'', model = None,
          vectorizer = Some \<lparr>vocabulary_from = Some [''initialization dummy text'']\<rparr>,
          model_name = ''all-MiniLM-L6-v2''\<rparr> \<and>
   encode_texts \<lparr>backend = ''tfidf'', model = None,
          vectorizer = Some \<lparr>vocabulary_from = Some [''initialization dummy text'']\<rparr>,
          model_name = ''all-MiniLM-L6-v2''\<rparr> [''hola''] \<noteq> Inl NotFittedError \<and>
   EmbeddingBackend_encode_query \<lparr>backend = ''tfidf'', model = None,
          vectorizer = Some \<lparr>vocabulary_from = Some [''initialization dummy text'']\<rparr>,
          model_name = ''all-MiniLM-L6-v2''\<rparr> ''hola'' \<noteq> Inl NotFittedError"
  by (simp add: EmbeddingBackend_init_def tfidf_env_def vectorizer_fit_def encode_texts_def
        vectorizer_transform_def EmbeddingBackend_encode_query_def)

section \<open>Properties of the retrieval cache\<close>

subsection \<open>Auxiliary facts\<close>

lemma update_missing_key: "map_of al k = None \<Longrightarrow> AList.update k v al = al @ [(k, v)]"
  by (induction al) (auto split: if_splits)

lemma cache_key_inj: "cache_key_of q k = cache_key_of q' k \<longleftrightarrow> q = q'"
  by (simp add: cache_key_of_def)

lemma map_of_keys_None:
  "q \<notin> set qs \<Longrightarrow> map_of (map (\<lambda>x. (cache_key_of x k, v)) qs) (cache_key_of q k) = None"
  by (induction qs) (auto simp: cache_key_inj)

lemma stub_retrieve_miss:
  assumes "map_of (retrieve_cache b) (cache_key_of q k) = None"
    and "int (length (retrieve_cache b)) \<le> cache_max_size b"
  shows "snd (Brain_retrieve stub_env b q k) =
           b\<lparr>retrieve_cache := retrieve_cache b @ [(cache_key_of q k, [])]\<rparr>"
  using assms
  by (simp add: Brain_retrieve_def stub_env_def Let_def update_missing_key)

lemma distinct_queries_Suc:
  "distinct_queries (Suc n) = distinct_queries n @ [replicate (Suc n) CHR ''q'']"
  by (simp add: distinct_queries_def)

lemma new_query_fresh: "replicate (Suc n) CHR ''q'' \<notin> set (distinct_queries n)"
proof
  assume "replicate (Suc n) CHR ''q'' \<in> set (distinct_queries n)"
  then obtain i where "i < n" and "replicate (Suc n) CHR ''q'' = replicate (Suc i) CHR ''q''"
    by (auto simp: distinct_queries_def)
  then have "length (replicate (Suc n) CHR ''q'') = length (replicate (Suc i) CHR ''q'')"
    by (simp only:)
  with \<open>i < n\<close> show False by simp
qed

lemma cache_fills:
  "n \<le> 101 \<Longrightarrow>
     retrieve_each stub_env new_brain (distinct_queries n) k =
       new_brain\<lparr>retrieve_cache := map (\<lambda>x. (cache_key_of x k, [])) (distinct_queries n)\<rparr>"
proof (induction n)
  case 0
  show ?case by (simp add: retrieve_each_def distinct_queries_def new_brain_def)
next
  case (Suc n)
  let ?b = "new_brain\<lparr>retrieve_cache := map (\<lambda>x. (cache_key_of x k, [])) (distinct_queries n)\<rparr>"
  have prev: "retrieve_each stub_env new_brain (distinct_queries n) k = ?b"
    using Suc by simp
  have len: "length (distinct_queries n) = n" by (simp add: distinct_queries_def)
  have miss: "map_of (retrieve_cache ?b) (cache_key_of (replicate (Suc n) CHR ''q'') k) = None"
    using map_of_keys_None[OF new_query_fresh] by simp
  have room: "int (length (retrieve_cache ?b)) \<le> cache_max_size ?b"
    using Suc.prems by (simp add: len new_brain_def)
  have "retrieve_each stub_env new_brain (distinct_queries (Suc n)) k =
          snd (Brain_retrieve stub_env ?b (replicate (Suc n) CHR ''q'') k)"
    using prev by (simp add: retrieve_each_def distinct_queries_Suc)
  also have "\<dots> = ?b\<lparr>retrieve_cache := retrieve_cache ?b @ [(cache_key_of (replicate (Suc n) CHR ''q'') k, [])]\<rparr>"
    by (rule stub_retrieve_miss[OF miss room])
  finally show ?case by (simp add: distinct_queries_Suc)
qed

subsection \<open>The cache after 101 different queries\<close>

text \<open>
  C7 on the code. A new \<open>Brain\<close> has \<open>_cache_max_size = 100\<close>. After 101 \<open>retrieve\<close>
  calls with pairwise different queries the cache holds 101 entries: the eviction
  test \<open>len(cache) > _cache_max_size\<close> is made before the insertion, so the first
  eviction happens only when the cache already holds 101 entries.
\<close>

theorem retrieve_cache_exceeds_max_size:
  "cache_max_size (retrieve_each stub_env new_brain (distinct_queries 101) 4) = 100 \<and>
   length (retrieve_cache (retrieve_each stub_env new_brain (distinct_queries 101) 4)) = 101"
proof -
  have "retrieve_each stub_env new_brain (distinct_queries 101) 4 =
          new_brain\<lparr>retrieve_cache := map (\<lambda>x. (cache_key_of x 4, [])) (distinct_queries 101)\<rparr>"
    by (rule cache_fills) simp
  moreover have "length (distinct_queries 101) = 101" by (simp add: distinct_queries_def)
  ultimately show ?thesis by (simp add: new_brain_def)
qed

end
